theory Spec2Isabelle
  imports Main "HOL-Library.Word"
begin

section \<open>Common conversions between ROS messages and protobuf messages\<close>

text \<open>
  Source: \<^verbatim>\<open>spot_driver_cpp/src/conversions/common_conversions.cpp\<close>.

  Every converter of that file has the shape \<^verbatim>\<open>void convert(const In& in, Out& out)\<close>: it
  assigns fields of the object \<^verbatim>\<open>out\<close> it is handed and leaves the others alone.  The
  model keeps that shape: each converter takes the input and the object to fill and
  returns the filled object.

  A C++ \<^verbatim>\<open>double\<close> is carried as its 64-bit pattern: the converters only copy doubles.
  ROS \<^verbatim>\<open>int32\<close>/\<^verbatim>\<open>uint32\<close> and protobuf \<^verbatim>\<open>int32\<close>/\<^verbatim>\<open>int64\<close> are words; \<open>scast\<close> is
  the sign-extending conversion, \<open>ucast\<close> the truncating (or zero-extending) one.
  A protobuf sub-message field has presence: it is an \<open>option\<close>, \<^verbatim>\<open>has_f()\<close> is
  \<open>f \<noteq> None\<close>, the accessor \<^verbatim>\<open>f()\<close> of an absent field yields the default instance and
  \<^verbatim>\<open>mutable_f()\<close> creates the default instance when the field is absent.
\<close>

type_synonym float64 = "64 word"

subsection \<open>Message types\<close>

record builtin_interfaces_Time =
  sec :: "32 word"
  nanosec :: "32 word"

record protobuf_Timestamp =
  seconds :: "64 word"
  nanos :: "32 word"

record geometry_msgs_Vector3 =
  Vector3_x :: float64
  Vector3_y :: float64
  Vector3_z :: float64

record geometry_msgs_Point =
  Point_x :: float64
  Point_y :: float64
  Point_z :: float64

record geometry_msgs_Quaternion =
  Quaternion_x :: float64
  Quaternion_y :: float64
  Quaternion_z :: float64
  Quaternion_w :: float64

record geometry_msgs_Pose =
  Pose_position :: geometry_msgs_Point
  Pose_orientation :: geometry_msgs_Quaternion

record bosdyn_Vec3 =
  Vec3_x :: float64
  Vec3_y :: float64
  Vec3_z :: float64

record bosdyn_Quaternion =
  pb_Quaternion_x :: float64
  pb_Quaternion_y :: float64
  pb_Quaternion_z :: float64
  pb_Quaternion_w :: float64

record bosdyn_SE3Pose =
  SE3Pose_position :: "bosdyn_Vec3 option"
  SE3Pose_rotation :: "bosdyn_Quaternion option"

text \<open>\<^verbatim>\<open>google::protobuf::DoubleValue\<close>: a wrapper message around one double.\<close>

record protobuf_DoubleValue =
  DoubleValue_value :: float64

text \<open>\<^verbatim>\<open>bosdyn_msgs::msg::ArmJointPosition\<close>: every joint is a value with a companion
  \<^verbatim>\<open>_is_set\<close> flag.\<close>

record bosdyn_msgs_ArmJointPosition =
  sh0 :: float64
  sh0_is_set :: bool
  sh1 :: float64
  sh1_is_set :: bool
  el0 :: float64
  el0_is_set :: bool
  el1 :: float64
  el1_is_set :: bool
  wr0 :: float64
  wr0_is_set :: bool
  wr1 :: float64
  wr1_is_set :: bool

text \<open>\<^verbatim>\<open>bosdyn::api::ArmJointPosition\<close>: every joint is an optional
  \<^verbatim>\<open>DoubleValue\<close> sub-message.\<close>

record bosdyn_ArmJointPosition =
  pb_sh0 :: "protobuf_DoubleValue option"
  pb_sh1 :: "protobuf_DoubleValue option"
  pb_el0 :: "protobuf_DoubleValue option"
  pb_el1 :: "protobuf_DoubleValue option"
  pb_wr0 :: "protobuf_DoubleValue option"
  pb_wr1 :: "protobuf_DoubleValue option"

record bosdyn_msgs_RequestHeader =
  request_timestamp :: builtin_interfaces_Time
  request_timestamp_is_set :: bool
  client_name :: string
  disable_rpc_logging :: bool

record bosdyn_RequestHeader =
  pb_request_timestamp :: "protobuf_Timestamp option"
  pb_client_name :: string
  pb_disable_rpc_logging :: bool

text \<open>\<^verbatim>\<open>bosdyn::api::CommonError\<close>: \<^verbatim>\<open>code\<close> is a protobuf enum, a 32-bit integer on
  the wire; \<^verbatim>\<open>message\<close> is a string.\<close>

record bosdyn_CommonError =
  pb_code :: "32 word"
  pb_message :: string

text \<open>\<^verbatim>\<open>bosdyn_msgs::msg::CommonError\<close>.  The declaration of the integer field
  \<^verbatim>\<open>code.value\<close> is not in the source files modelled here, so its type is the parameter \<open>'c\<close>;
  the converter below fixes it to a word of some width and assigns the enum to it by the
  usual integer conversion.\<close>

record 'c bosdyn_msgs_CommonError =
  code_value :: 'c
  message :: string

record bosdyn_ResponseHeader =
  pb_request_header :: "bosdyn_RequestHeader option"
  pb_request_received_timestamp :: "protobuf_Timestamp option"
  pb_response_timestamp :: "protobuf_Timestamp option"
  pb_error :: "bosdyn_CommonError option"

record 'c bosdyn_msgs_ResponseHeader =
  request_header :: bosdyn_msgs_RequestHeader
  request_header_is_set :: bool
  request_received_timestamp :: builtin_interfaces_Time
  request_received_timestamp_is_set :: bool
  response_timestamp :: builtin_interfaces_Time
  response_timestamp_is_set :: bool
  error :: "'c bosdyn_msgs_CommonError"
  error_is_set :: bool

subsection \<open>Default instances and protobuf accessors\<close>

definition Timestamp_default :: protobuf_Timestamp where
  "Timestamp_default = \<lparr>seconds = 0, nanos = 0\<rparr>"

definition Vec3_default :: bosdyn_Vec3 where
  "Vec3_default = \<lparr>Vec3_x = 0, Vec3_y = 0, Vec3_z = 0\<rparr>"

definition pb_Quaternion_default :: bosdyn_Quaternion where
  "pb_Quaternion_default =
     \<lparr>pb_Quaternion_x = 0, pb_Quaternion_y = 0, pb_Quaternion_z = 0, pb_Quaternion_w = 0\<rparr>"

definition DoubleValue_default :: protobuf_DoubleValue where
  "DoubleValue_default = \<lparr>DoubleValue_value = 0\<rparr>"

definition ArmJointPosition_default :: bosdyn_ArmJointPosition where
  "ArmJointPosition_default =
     \<lparr>pb_sh0 = None, pb_sh1 = None, pb_el0 = None, pb_el1 = None, pb_wr0 = None, pb_wr1 = None\<rparr>"

definition RequestHeader_default :: bosdyn_RequestHeader where
  "RequestHeader_default =
     \<lparr>pb_request_timestamp = None, pb_client_name = [], pb_disable_rpc_logging = False\<rparr>"

definition CommonError_default :: bosdyn_CommonError where
  "CommonError_default = \<lparr>pb_code = 0, pb_message = []\<rparr>"

text \<open>The accessor \<^verbatim>\<open>f()\<close> and the pointer target of \<^verbatim>\<open>mutable_f()\<close> of a field with
  presence: the stored sub-message, or the default instance.\<close>

definition or_default :: "'a \<Rightarrow> 'a option \<Rightarrow> 'a" where
  "or_default d f = (case f of None \<Rightarrow> d | Some v \<Rightarrow> v)"

subsection \<open>ROS to protobuf\<close>

definition convertBuiltinInterfacesTimeToProto ::
  "builtin_interfaces_Time \<Rightarrow> protobuf_Timestamp \<Rightarrow> protobuf_Timestamp" where
  "convertBuiltinInterfacesTimeToProto ros_msg proto =
     proto\<lparr>seconds := scast (sec ros_msg), nanos := ucast (nanosec ros_msg)\<rparr>"

definition convertGeometryMsgsVector3ToProto ::
  "geometry_msgs_Vector3 \<Rightarrow> bosdyn_Vec3 \<Rightarrow> bosdyn_Vec3" where
  "convertGeometryMsgsVector3ToProto ros_msg proto =
     proto\<lparr>Vec3_x := Vector3_x ros_msg, Vec3_y := Vector3_y ros_msg, Vec3_z := Vector3_z ros_msg\<rparr>"

definition convertGeometryMsgsPointToProto ::
  "geometry_msgs_Point \<Rightarrow> bosdyn_Vec3 \<Rightarrow> bosdyn_Vec3" where
  "convertGeometryMsgsPointToProto ros_msg proto =
     proto\<lparr>Vec3_x := Point_x ros_msg, Vec3_y := Point_y ros_msg, Vec3_z := Point_z ros_msg\<rparr>"

definition convertGeometryMsgsQuaternionToProto ::
  "geometry_msgs_Quaternion \<Rightarrow> bosdyn_Quaternion \<Rightarrow> bosdyn_Quaternion" where
  "convertGeometryMsgsQuaternionToProto ros_msg proto =
     proto\<lparr>pb_Quaternion_w := Quaternion_w ros_msg, pb_Quaternion_x := Quaternion_x ros_msg,
           pb_Quaternion_y := Quaternion_y ros_msg, pb_Quaternion_z := Quaternion_z ros_msg\<rparr>"

definition convertGeometryMsgsPoseToProto ::
  "geometry_msgs_Pose \<Rightarrow> bosdyn_SE3Pose \<Rightarrow> bosdyn_SE3Pose" where
  "convertGeometryMsgsPoseToProto ros_msg proto =
     (let proto1 = proto\<lparr>SE3Pose_position :=
            Some (convertGeometryMsgsPointToProto (Pose_position ros_msg)
                    (or_default Vec3_default (SE3Pose_position proto)))\<rparr>
      in proto1\<lparr>SE3Pose_rotation :=
            Some (convertGeometryMsgsQuaternionToProto (Pose_orientation ros_msg)
                    (or_default pb_Quaternion_default (SE3Pose_rotation proto1)))\<rparr>)"

definition convertBosdynMsgsRequestHeaderToProto ::
  "bosdyn_msgs_RequestHeader \<Rightarrow> bosdyn_RequestHeader \<Rightarrow> bosdyn_RequestHeader" where
  "convertBosdynMsgsRequestHeaderToProto ros_msg proto =
     (let proto1 =
        (if request_timestamp_is_set ros_msg
         then proto\<lparr>pb_request_timestamp :=
                Some (convertBuiltinInterfacesTimeToProto (request_timestamp ros_msg)
                        (or_default Timestamp_default (pb_request_timestamp proto)))\<rparr>
         else proto)
      in proto1\<lparr>pb_client_name := client_name ros_msg,
                 pb_disable_rpc_logging := disable_rpc_logging ros_msg\<rparr>)"

definition convertGloat64ToProto :: "float64 \<Rightarrow> protobuf_DoubleValue \<Rightarrow> protobuf_DoubleValue" where
  "convertGloat64ToProto ros_msg proto = proto\<lparr>DoubleValue_value := ros_msg\<rparr>"

definition convertBosdynMsgsArmJointPositionToProto ::
  "bosdyn_msgs_ArmJointPosition \<Rightarrow> bosdyn_ArmJointPosition \<Rightarrow> bosdyn_ArmJointPosition" where
  "convertBosdynMsgsArmJointPositionToProto ros_msg proto =
     (let proto1 =
        (if sh0_is_set ros_msg
         then proto\<lparr>pb_sh0 :=
                Some (convertGloat64ToProto (sh0 ros_msg) (or_default DoubleValue_default (pb_sh0 proto)))\<rparr>
         else proto);
      proto2 =
        (if sh1_is_set ros_msg
         then proto1\<lparr>pb_sh1 :=
                Some (convertGloat64ToProto (sh1 ros_msg) (or_default DoubleValue_default (pb_sh1 proto1)))\<rparr>
         else proto1);
      proto3 =
        (if el0_is_set ros_msg
         then proto2\<lparr>pb_el0 :=
                Some (convertGloat64ToProto (el0 ros_msg) (or_default DoubleValue_default (pb_el0 proto2)))\<rparr>
         else proto2);
      proto4 =
        (if el1_is_set ros_msg
         then proto3\<lparr>pb_el1 :=
                Some (convertGloat64ToProto (el1 ros_msg) (or_default DoubleValue_default (pb_el1 proto3)))\<rparr>
         else proto3);
      proto5 =
        (if wr0_is_set ros_msg
         then proto4\<lparr>pb_wr0 :=
                Some (convertGloat64ToProto (wr0 ros_msg) (or_default DoubleValue_default (pb_wr0 proto4)))\<rparr>
         else proto4)
      in
        (if wr1_is_set ros_msg
         then proto5\<lparr>pb_wr1 :=
                Some (convertGloat64ToProto (wr1 ros_msg) (or_default DoubleValue_default (pb_wr1 proto5)))\<rparr>
         else proto5))"

subsection \<open>Protobuf to ROS\<close>

definition convertProtoToBuiltinInterfacesTime ::
  "protobuf_Timestamp \<Rightarrow> builtin_interfaces_Time \<Rightarrow> builtin_interfaces_Time" where
  "convertProtoToBuiltinInterfacesTime proto ros_msg =
     ros_msg\<lparr>sec := ucast (seconds proto), nanosec := ucast (nanos proto)\<rparr>"

definition convertProtoToGeometryMsgsVector3 ::
  "bosdyn_Vec3 \<Rightarrow> geometry_msgs_Vector3 \<Rightarrow> geometry_msgs_Vector3" where
  "convertProtoToGeometryMsgsVector3 proto ros_msg =
     ros_msg\<lparr>Vector3_x := Vec3_x proto, Vector3_y := Vec3_y proto, Vector3_z := Vec3_z proto\<rparr>"

text \<open>The overload of \<^verbatim>\<open>convertProtoToGeometryMsgsVector3\<close> that fills a
  \<^verbatim>\<open>geometry_msgs::msg::Point\<close>.\<close>

definition convertProtoToGeometryMsgsVector3_Point ::
  "bosdyn_Vec3 \<Rightarrow> geometry_msgs_Point \<Rightarrow> geometry_msgs_Point" where
  "convertProtoToGeometryMsgsVector3_Point proto ros_msg =
     ros_msg\<lparr>Point_x := Vec3_x proto, Point_y := Vec3_y proto, Point_z := Vec3_z proto\<rparr>"

definition convertProtoToGeometryMsgsQuaternion ::
  "bosdyn_Quaternion \<Rightarrow> geometry_msgs_Quaternion \<Rightarrow> geometry_msgs_Quaternion" where
  "convertProtoToGeometryMsgsQuaternion proto ros_msg =
     ros_msg\<lparr>Quaternion_w := pb_Quaternion_w proto, Quaternion_x := pb_Quaternion_x proto,
             Quaternion_y := pb_Quaternion_y proto, Quaternion_z := pb_Quaternion_z proto\<rparr>"

definition convertProtoToGeometryMsgsPose ::
  "bosdyn_SE3Pose \<Rightarrow> geometry_msgs_Pose \<Rightarrow> geometry_msgs_Pose" where
  "convertProtoToGeometryMsgsPose proto ros_msg =
     (let ros1 = ros_msg\<lparr>Pose_position :=
            convertProtoToGeometryMsgsVector3_Point
              (or_default Vec3_default (SE3Pose_position proto)) (Pose_position ros_msg)\<rparr>
      in ros1\<lparr>Pose_orientation :=
            convertProtoToGeometryMsgsQuaternion
              (or_default pb_Quaternion_default (SE3Pose_rotation proto)) (Pose_orientation ros1)\<rparr>)"

definition convertProtoToBosdynMsgsRequestHeader ::
  "bosdyn_RequestHeader \<Rightarrow> bosdyn_msgs_RequestHeader \<Rightarrow> bosdyn_msgs_RequestHeader" where
  "convertProtoToBosdynMsgsRequestHeader proto ros_msg =
     (let ros1 = ros_msg\<lparr>request_timestamp :=
            convertProtoToBuiltinInterfacesTime
              (or_default Timestamp_default (pb_request_timestamp proto)) (request_timestamp ros_msg)\<rparr>;
          ros2 = ros1\<lparr>request_timestamp_is_set := (pb_request_timestamp proto \<noteq> None)\<rparr>;
          ros3 = ros2\<lparr>client_name := pb_client_name proto\<rparr>
      in ros3\<lparr>disable_rpc_logging := pb_disable_rpc_logging proto\<rparr>)"

definition convertProtoToBosdynMsgsCommonError ::
  "bosdyn_CommonError \<Rightarrow> ('w::len word) bosdyn_msgs_CommonError
     \<Rightarrow> ('w word) bosdyn_msgs_CommonError" where
  "convertProtoToBosdynMsgsCommonError proto ros_msg =
     (let ros1 = ros_msg\<lparr>code_value := ucast (pb_code proto)\<rparr>
      in ros1\<lparr>message := pb_message proto\<rparr>)"

definition convertProtoToBosdynMsgsResponseHeader ::
  "bosdyn_ResponseHeader \<Rightarrow> ('w::len word) bosdyn_msgs_ResponseHeader
     \<Rightarrow> ('w word) bosdyn_msgs_ResponseHeader" where
  "convertProtoToBosdynMsgsResponseHeader proto ros_msg =
     (let ros1 = ros_msg\<lparr>request_header :=
            convertProtoToBosdynMsgsRequestHeader
              (or_default RequestHeader_default (pb_request_header proto)) (request_header ros_msg)\<rparr>;
          ros2 = ros1\<lparr>request_header_is_set := (pb_request_header proto \<noteq> None)\<rparr>;
          ros3 = ros2\<lparr>request_received_timestamp :=
            convertProtoToBuiltinInterfacesTime
              (or_default Timestamp_default (pb_request_received_timestamp proto))
              (request_received_timestamp ros2)\<rparr>;
          ros4 = ros3\<lparr>request_received_timestamp_is_set :=
            (pb_request_received_timestamp proto \<noteq> None)\<rparr>;
          ros5 = ros4\<lparr>response_timestamp :=
            convertProtoToBuiltinInterfacesTime
              (or_default Timestamp_default (pb_response_timestamp proto)) (response_timestamp ros4)\<rparr>;
          ros6 = ros5\<lparr>response_timestamp_is_set := (pb_response_timestamp proto \<noteq> None)\<rparr>;
          ros7 = ros6\<lparr>error :=
            convertProtoToBosdynMsgsCommonError
              (or_default CommonError_default (pb_error proto)) (error ros6)\<rparr>
      in ros7\<lparr>error_is_set := (pb_error proto \<noteq> None)\<rparr>)"

subsection \<open>The six joints of an arm joint position, by name\<close>

datatype arm_joint = SH0 | SH1 | EL0 | EL1 | WR0 | WR1

fun ros_joint_is_set :: "arm_joint \<Rightarrow> bosdyn_msgs_ArmJointPosition \<Rightarrow> bool" where
  "ros_joint_is_set SH0 m = sh0_is_set m"
| "ros_joint_is_set SH1 m = sh1_is_set m"
| "ros_joint_is_set EL0 m = el0_is_set m"
| "ros_joint_is_set EL1 m = el1_is_set m"
| "ros_joint_is_set WR0 m = wr0_is_set m"
| "ros_joint_is_set WR1 m = wr1_is_set m"

fun ros_joint_value :: "arm_joint \<Rightarrow> bosdyn_msgs_ArmJointPosition \<Rightarrow> float64" where
  "ros_joint_value SH0 m = sh0 m"
| "ros_joint_value SH1 m = sh1 m"
| "ros_joint_value EL0 m = el0 m"
| "ros_joint_value EL1 m = el1 m"
| "ros_joint_value WR0 m = wr0 m"
| "ros_joint_value WR1 m = wr1 m"

fun proto_joint :: "arm_joint \<Rightarrow> bosdyn_ArmJointPosition \<Rightarrow> protobuf_DoubleValue option" where
  "proto_joint SH0 p = pb_sh0 p"
| "proto_joint SH1 p = pb_sh1 p"
| "proto_joint EL0 p = pb_el0 p"
| "proto_joint EL1 p = pb_el1 p"
| "proto_joint WR0 p = pb_wr0 p"
| "proto_joint WR1 p = pb_wr1 p"

section \<open>The joint map of the hardware interface\<close>

text \<open>
  Source: \<^verbatim>\<open>spot_ros2_control/hardware/include/spot_ros2_control/spot_joint_map.hpp\<close>.

  A \<^verbatim>\<open>std::unordered_map<std::string, size_t>\<close> is a map \<open>string \<rightharpoonup> nat\<close>.  The two
  constant tables are written as the lists of pairs of their initialisers; the loop of
  \<^verbatim>\<open>get_namespaced_joint_map\<close> walks such a list.
\<close>

definition kNjointsArm :: nat where
  "kNjointsArm = 19"

definition kNjointsNoArm :: nat where
  "kNjointsNoArm = 12"

definition kJointNameToIndexWithArm :: "(string \<times> nat) list" where
  "kJointNameToIndexWithArm =
     [(''front_left_hip_x'', 0), (''front_left_hip_y'', 1), (''front_left_knee'', 2),
      (''front_right_hip_x'', 3), (''front_right_hip_y'', 4), (''front_right_knee'', 5),
      (''rear_left_hip_x'', 6), (''rear_left_hip_y'', 7), (''rear_left_knee'', 8),
      (''rear_right_hip_x'', 9), (''rear_right_hip_y'', 10), (''rear_right_knee'', 11),
      (''arm_sh0'', 12), (''arm_sh1'', 13), (''arm_el0'', 14), (''arm_el1'', 15),
      (''arm_wr0'', 16), (''arm_wr1'', 17), (''arm_f1x'', 18)]"

definition kJointNameToIndexWithoutArm :: "(string \<times> nat) list" where
  "kJointNameToIndexWithoutArm =
     [(''front_left_hip_x'', 0), (''front_left_hip_y'', 1), (''front_left_knee'', 2),
      (''front_right_hip_x'', 3), (''front_right_hip_y'', 4), (''front_right_knee'', 5),
      (''rear_left_hip_x'', 6), (''rear_left_hip_y'', 7), (''rear_left_knee'', 8),
      (''rear_right_hip_x'', 9), (''rear_right_hip_y'', 10), (''rear_right_knee'', 11)]"

text \<open>The loop \<^verbatim>\<open>for (const auto& pair : default_map) namespaced_map[joint_prefix + pair.first] = pair.second;\<close>\<close>

fun namespaced_loop :: "string \<Rightarrow> (string \<times> nat) list \<Rightarrow> (string \<rightharpoonup> nat) \<Rightarrow> (string \<rightharpoonup> nat)" where
  "namespaced_loop joint_prefix [] namespaced_map = namespaced_map"
| "namespaced_loop joint_prefix (pair # rest) namespaced_map =
     namespaced_loop joint_prefix rest (namespaced_map(joint_prefix @ fst pair \<mapsto> snd pair))"

definition default_joint_map :: "bool \<Rightarrow> (string \<times> nat) list" where
  "default_joint_map has_arm =
     (if has_arm then kJointNameToIndexWithArm else kJointNameToIndexWithoutArm)"

definition get_namespaced_joint_map :: "string \<Rightarrow> bool \<Rightarrow> (string \<rightharpoonup> nat)" where
  "get_namespaced_joint_map spot_name has_arm =
     (let default_map = default_joint_map has_arm in
      if spot_name = [] then map_of default_map
      else
        (let joint_prefix = spot_name @ ''/''
         in namespaced_loop joint_prefix default_map Map.empty))"

text \<open>\<^verbatim>\<open>sensor_msgs::msg::JointState\<close>, without its header, which \<^verbatim>\<open>order_joint_states\<close>
  neither reads nor writes.\<close>

record JointState =
  name :: "string list"
  position :: "float64 list"
  velocity :: "float64 list"
  effort :: "float64 list"

text \<open>\<^verbatim>\<open>std::vector::resize(n)\<close>: cut to \<open>n\<close> elements, or pad with value-initialised
  elements (the empty string, the double 0.0) up to \<open>n\<close>.\<close>

definition resize :: "nat \<Rightarrow> 'a \<Rightarrow> 'a list \<Rightarrow> 'a list" where
  "resize n d xs = take n xs @ replicate (n - length xs) d"

text \<open>
  The body of the \<^verbatim>\<open>try\<close> block after the map lookup has succeeded.  Every \<^verbatim>\<open>at\<close> throws
  \<^verbatim>\<open>std::out_of_range\<close> when its index is out of range; the right-hand side of an assignment
  is evaluated before the left-hand side.  The result is \<open>False\<close> with the output as
  written so far when an \<^verbatim>\<open>at\<close> throws, \<open>True\<close> with the four entries written otherwise.
\<close>

definition write_joint :: "nat \<Rightarrow> nat \<Rightarrow> string \<Rightarrow> JointState \<Rightarrow> JointState \<Rightarrow> bool \<times> JointState" where
  "write_joint i joint_index joint_name input_joint_states output_joint_states =
     (if length (name output_joint_states) \<le> joint_index then (False, output_joint_states)
      else
        (let out1 = output_joint_states
               \<lparr>name := (name output_joint_states)[joint_index := joint_name]\<rparr>
         in if length (position input_joint_states) \<le> i \<or> length (position out1) \<le> joint_index
            then (False, out1)
            else
              (let out2 = out1\<lparr>position :=
                     (position out1)[joint_index := position input_joint_states ! i]\<rparr>
               in if length (velocity input_joint_states) \<le> i
                     \<or> length (velocity out2) \<le> joint_index
                  then (False, out2)
                  else
                    (let out3 = out2\<lparr>velocity :=
                           (velocity out2)[joint_index := velocity input_joint_states ! i]\<rparr>
                     in if length (effort input_joint_states) \<le> i
                           \<or> length (effort out3) \<le> joint_index
                        then (False, out3)
                        else (True, out3\<lparr>effort :=
                           (effort out3)[joint_index := effort input_joint_states ! i]\<rparr>)))))"

text \<open>How a call of \<^verbatim>\<open>order_joint_states\<close> ends: it returns a boolean, or the
  \<^verbatim>\<open>std::out_of_range\<close> of \<^verbatim>\<open>input_joint_states.name.at(i)\<close>, which stands outside the
  \<^verbatim>\<open>try\<close> block, leaves the function.\<close>

datatype outcome = Returned bool | Uncaught_out_of_range

text \<open>The loop \<^verbatim>\<open>for (size_t i = 0; i < njoints; ++i)\<close>, from index \<open>i\<close> on.\<close>

function order_loop ::
  "(string \<rightharpoonup> nat) \<Rightarrow> JointState \<Rightarrow> nat \<Rightarrow> nat \<Rightarrow> JointState \<Rightarrow> outcome \<times> JointState" where
  "order_loop joint_map input_joint_states njoints i output_joint_states =
     (if i < njoints then
        (if length (name input_joint_states) \<le> i
         then (Uncaught_out_of_range, output_joint_states)
         else
           (let joint_name = name input_joint_states ! i in
            case joint_map joint_name of
              None \<Rightarrow> (Returned False, output_joint_states)
            | Some joint_index \<Rightarrow>
                (case write_joint i joint_index joint_name input_joint_states output_joint_states of
                   (False, out') \<Rightarrow> (Returned False, out')
                 | (True, out') \<Rightarrow> order_loop joint_map input_joint_states njoints (Suc i) out')))
      else (Returned True, output_joint_states))"
  by pat_completeness auto
termination
  by (relation "measure (\<lambda>(joint_map, input_joint_states, njoints, i, out). njoints - i)") auto

declare order_loop.simps [simp del]

definition order_joint_states :: "string \<Rightarrow> JointState \<Rightarrow> JointState \<Rightarrow> outcome \<times> JointState" where
  "order_joint_states spot_name input_joint_states output_joint_states =
     (let njoints = length (position input_joint_states) in
      case (if njoints = kNjointsArm then Some True
            else if njoints = kNjointsNoArm then Some False
            else None) of
        None \<Rightarrow> (Returned False, output_joint_states)
      | Some has_arm \<Rightarrow>
          (let out1 = output_joint_states\<lparr>name := resize njoints [] (name output_joint_states)\<rparr>;
               out2 = out1\<lparr>position := resize njoints 0 (position out1)\<rparr>;
               out3 = out2\<lparr>velocity := resize njoints 0 (velocity out2)\<rparr>;
               out4 = out3\<lparr>effort := resize njoints 0 (effort out3)\<rparr>;
               joint_map = get_namespaced_joint_map spot_name has_arm
           in order_loop joint_map input_joint_states njoints 0 out4))"

section \<open>The robot state client\<close>

text \<open>
  Source: \<^verbatim>\<open>spot_driver_cpp/src/api/default_robot_state_client.cpp\<close>.

  The SDK client, the time sync API and the thirteen translators are declared in other
  files; \<^verbatim>\<open>getRobotState\<close> is modelled over them as parameters.  The type of
  the raw robot state is \<open>'rs\<close>, the type of the clock skew is \<open>'skew\<close>, and each
  translated sub-state has a type parameter of its own.
\<close>

text \<open>\<^verbatim>\<open>::bosdyn::common::Status\<close>, as far as the code looks at it: its conversion to
  \<^verbatim>\<open>bool\<close> and its \<^verbatim>\<open>DebugString()\<close>.\<close>

record Status =
  status_ok :: bool
  DebugString :: string

record 'rs RobotStateResponse =
  robot_state :: "'rs option"

definition has_robot_state :: "'rs RobotStateResponse \<Rightarrow> bool" where
  "has_robot_state rsp = (robot_state rsp \<noteq> None)"

record 'rs RobotStateResultType =
  status :: Status
  response :: "'rs RobotStateResponse"

text \<open>
  Every call that \<^verbatim>\<open>getRobotState\<close> makes to a collaborator, with the arguments it passes.
  The model returns the list of these calls, in the order in which they are made, next to
  the value the C++ function returns.
\<close>

datatype ('rs, 'skew) call =
    Call_GetRobotStateAsync
  | Call_getClockSkew
  | Call_GetBatteryStates 'rs 'skew
  | Call_GetWifiState 'rs
  | Call_GetFootState 'rs
  | Call_GetEstopStates 'rs 'skew
  | Call_GetJointStates 'rs 'skew string
  | Call_GetTf 'rs 'skew string string
  | Call_GetOdomTwist 'rs 'skew
  | Call_GetOdom 'rs 'skew string bool
  | Call_GetPowerState 'rs 'skew
  | Call_GetSystemFaultState 'rs 'skew
  | Call_GetManipulatorState 'rs
  | Call_GetEndEffectorForce 'rs 'skew string
  | Call_GetBehaviorFaultState 'rs 'skew

text \<open>
  The object: the SDK client and the time sync API, each as the answer it gives after the
  calls made so far (so that the model can tell a first request from a repeated one), and
  the frame prefix.  The members \<^verbatim>\<open>client_\<close>, \<^verbatim>\<open>time_sync_api_\<close> and \<^verbatim>\<open>frame_prefix_\<close> carry
  the suffix \<open>_m\<close> here, since a name cannot end in an underscore.
\<close>

record ('rs, 'skew) DefaultRobotStateClient =
  client_m :: "('rs, 'skew) call list \<Rightarrow> 'rs RobotStateResultType"
  time_sync_api_m :: "('rs, 'skew) call list \<Rightarrow> string + 'skew"
  frame_prefix_m :: string

text \<open>The constructor.\<close>

definition DefaultRobotStateClient_ctor ::
  "(('rs, 'skew) call list \<Rightarrow> 'rs RobotStateResultType) \<Rightarrow> (('rs, 'skew) call list \<Rightarrow> string + 'skew)
     \<Rightarrow> string \<Rightarrow> ('rs, 'skew) DefaultRobotStateClient" where
  "DefaultRobotStateClient_ctor client time_sync_api robot_name =
     \<lparr>client_m = client, time_sync_api_m = time_sync_api,
      frame_prefix_m = (if robot_name = [] then [] else robot_name @ ''/'')\<rparr>"

text \<open>The aggregate \<^verbatim>\<open>RobotState\<close>: one field for each translator, in the order of the
  initialiser list.\<close>

record ('bat, 'wifi, 'foot, 'estop, 'joint, 'tf, 'twist, 'odom, 'power, 'sfault, 'manip, 'force, 'bfault) RobotState =
  battery_states :: 'bat
  wifi_state :: 'wifi
  foot_states :: 'foot
  estop_states :: 'estop
  joint_states :: 'joint
  tf_msg :: 'tf
  odom_twist :: 'twist
  odom_msg :: 'odom
  power_state :: 'power
  system_faults :: 'sfault
  manipulator_state :: 'manip
  end_effector_force :: 'force
  behavior_fault_state :: 'bfault

text \<open>
  Modelled from the spec: the thirteen translators (\<^verbatim>\<open>GetBatteryStates\<close> ...
  \<^verbatim>\<open>GetBehaviorFaultState\<close> of \<^verbatim>\<open>spot_driver_cpp/conversions/robot_state.hpp\<close>) are not
  among the source files modelled here.  The spec describes each as a pure function of the raw
  state, the clock skew and the frame information it is handed, so each is a function of
  exactly the arguments that \<^verbatim>\<open>getRobotState\<close> passes to it.
\<close>

record ('rs, 'skew, 'bat, 'wifi, 'foot, 'estop, 'joint, 'tf, 'twist, 'odom, 'power, 'sfault, 'manip, 'force, 'bfault) translators =
  GetBatteryStates :: "'rs \<Rightarrow> 'skew \<Rightarrow> 'bat"
  GetWifiState :: "'rs \<Rightarrow> 'wifi"
  GetFootState :: "'rs \<Rightarrow> 'foot"
  GetEstopStates :: "'rs \<Rightarrow> 'skew \<Rightarrow> 'estop"
  GetJointStates :: "'rs \<Rightarrow> 'skew \<Rightarrow> string \<Rightarrow> 'joint"
  GetTf :: "'rs \<Rightarrow> 'skew \<Rightarrow> string \<Rightarrow> string \<Rightarrow> 'tf"
  GetOdomTwist :: "'rs \<Rightarrow> 'skew \<Rightarrow> 'twist"
  GetOdom :: "'rs \<Rightarrow> 'skew \<Rightarrow> string \<Rightarrow> bool \<Rightarrow> 'odom"
  GetPowerState :: "'rs \<Rightarrow> 'skew \<Rightarrow> 'power"
  GetSystemFaultState :: "'rs \<Rightarrow> 'skew \<Rightarrow> 'sfault"
  GetManipulatorState :: "'rs \<Rightarrow> 'manip"
  GetEndEffectorForce :: "'rs \<Rightarrow> 'skew \<Rightarrow> string \<Rightarrow> 'force"
  GetBehaviorFaultState :: "'rs \<Rightarrow> 'skew \<Rightarrow> 'bfault"

text \<open>
  \<^verbatim>\<open>getRobotState\<close>.  The future of \<^verbatim>\<open>GetRobotStateAsync\<close> is awaited at once, so the
  request and its result are one step.  \<^verbatim>\<open>tl::expected<RobotState, std::string>\<close> is a
  sum with the error string on the left.  Past the first check the response has its
  \<^verbatim>\<open>robot_state\<close>, which is what \<open>the\<close> reads.  The elements of a braced initialiser
  list are evaluated from left to right, which is the order of the translator calls.
\<close>

definition getRobotState ::
  "('rs, 'skew) DefaultRobotStateClient \<Rightarrow> ('rs, 'skew, 'bat, 'wifi, 'foot, 'estop, 'joint, 'tf, 'twist, 'odom, 'power, 'sfault, 'manip, 'force, 'bfault) translators \<Rightarrow> string
     \<Rightarrow> (string + ('bat, 'wifi, 'foot, 'estop, 'joint, 'tf, 'twist, 'odom, 'power, 'sfault, 'manip, 'force, 'bfault) RobotState) \<times> ('rs, 'skew) call list" where
  "getRobotState self tr preferred_odom_frame =
     (let get_robot_state_result = client_m self [];
          calls1 = [Call_GetRobotStateAsync]
      in if \<not> status_ok (status get_robot_state_result)
            \<or> \<not> has_robot_state (response get_robot_state_result)
         then (Inl (''Failed to get robot state: '' @ DebugString (status get_robot_state_result)),
               calls1)
         else
           (let clock_skew_result = time_sync_api_m self calls1;
                calls2 = calls1 @ [Call_getClockSkew]
            in case clock_skew_result of
                 Inl clock_skew_error \<Rightarrow>
                   (Inl (''Failed to get latest clock skew: '' @ clock_skew_error), calls2)
               | Inr clock_skew \<Rightarrow>
                   (let rs = the (robot_state (response get_robot_state_result));
                        out = \<lparr>battery_states = GetBatteryStates tr rs clock_skew,
                               wifi_state = GetWifiState tr rs,
                               foot_states = GetFootState tr rs,
                               estop_states = GetEstopStates tr rs clock_skew,
                               joint_states = GetJointStates tr rs clock_skew (frame_prefix_m self),
                               tf_msg = GetTf tr rs clock_skew (frame_prefix_m self) preferred_odom_frame,
                               odom_twist = GetOdomTwist tr rs clock_skew,
                               odom_msg = GetOdom tr rs clock_skew (frame_prefix_m self)
                                  (preferred_odom_frame = frame_prefix_m self @ ''vision''),
                               power_state = GetPowerState tr rs clock_skew,
                               system_faults = GetSystemFaultState tr rs clock_skew,
                               manipulator_state = GetManipulatorState tr rs,
                               end_effector_force = GetEndEffectorForce tr rs clock_skew (frame_prefix_m self),
                               behavior_fault_state = GetBehaviorFaultState tr rs clock_skew\<rparr>
                    in (Inr out,
                        calls2 @
                        [Call_GetBatteryStates rs clock_skew,
                         Call_GetWifiState rs,
                         Call_GetFootState rs,
                         Call_GetEstopStates rs clock_skew,
                         Call_GetJointStates rs clock_skew (frame_prefix_m self),
                         Call_GetTf rs clock_skew (frame_prefix_m self) preferred_odom_frame,
                         Call_GetOdomTwist rs clock_skew,
                         Call_GetOdom rs clock_skew (frame_prefix_m self)
                           (preferred_odom_frame = frame_prefix_m self @ ''vision''),
                         Call_GetPowerState rs clock_skew,
                         Call_GetSystemFaultState rs clock_skew,
                         Call_GetManipulatorState rs,
                         Call_GetEndEffectorForce rs clock_skew (frame_prefix_m self),
                         Call_GetBehaviorFaultState rs clock_skew]))))"

section \<open>Vocabulary of the statements\<close>

text \<open>The rule that turns a robot name or namespace into a prefix.\<close>

definition joint_prefix_of :: "string \<Rightarrow> string" where
  "joint_prefix_of spot_name = (if spot_name = [] then [] else spot_name @ ''/'')"

text \<open>All four arrays of a joint state have \<open>n\<close> entries; all four have at least \<open>n\<close>.\<close>

definition sized :: "nat \<Rightarrow> JointState \<Rightarrow> bool" where
  "sized n js = (length (name js) = n \<and> length (position js) = n
                 \<and> length (velocity js) = n \<and> length (effort js) = n)"

definition covers :: "nat \<Rightarrow> JointState \<Rightarrow> bool" where
  "covers n js = (n \<le> length (name js) \<and> n \<le> length (position js)
                 \<and> n \<le> length (velocity js) \<and> n \<le> length (effort js))"

text \<open>The data of a joint state at one index.\<close>

definition entry_at :: "JointState \<Rightarrow> nat \<Rightarrow> string \<times> float64 \<times> float64 \<times> float64" where
  "entry_at js j = (name js ! j, position js ! j, velocity js ! j, effort js ! j)"

text \<open>Joint states to run the code on: twelve leg joints in reverse order; the same with the
  name of the second joint replaced by the name of the first; the same with the name of
  the last joint replaced by a name that is in no map; and an output object that holds
  twelve old entries.\<close>

definition legs_reversed :: JointState where
  "legs_reversed =
     \<lparr>name = rev (map fst kJointNameToIndexWithoutArm),
      position = [1, 2, 3, 4, 5, 6, 7, 8, 9, 10, 11, 12],
      velocity = [21, 22, 23, 24, 25, 26, 27, 28, 29, 30, 31, 32],
      effort = [41, 42, 43, 44, 45, 46, 47, 48, 49, 50, 51, 52]\<rparr>"

definition legs_duplicate :: JointState where
  "legs_duplicate = legs_reversed\<lparr>name := (name legs_reversed)[1 := ''rear_right_knee'']\<rparr>"

definition legs_unknown :: JointState where
  "legs_unknown = legs_reversed\<lparr>name := (name legs_reversed)[11 := ''tail'']\<rparr>"

definition old_output :: JointState where
  "old_output =
     \<lparr>name = replicate 12 ''old'', position = replicate 12 99,
      velocity = replicate 12 99, effort = replicate 12 99\<rparr>"

text \<open>The thirteen translators by name, in the order of the source.\<close>

datatype translator_id =
    T_BatteryStates | T_WifiState | T_FootState | T_EstopStates | T_JointStates | T_Tf
  | T_OdomTwist | T_Odom | T_PowerState | T_SystemFaultState | T_ManipulatorState
  | T_EndEffectorForce | T_BehaviorFaultState

definition source_order :: "translator_id list" where
  "source_order =
     [T_BatteryStates, T_WifiState, T_FootState, T_EstopStates, T_JointStates, T_Tf,
      T_OdomTwist, T_Odom, T_PowerState, T_SystemFaultState, T_ManipulatorState,
      T_EndEffectorForce, T_BehaviorFaultState]"

text \<open>Which translator a call runs (none for the two calls to the collaborators), the clock
  skew a call is handed, and the frame prefix a call is handed.\<close>

fun translator_of_call :: "('rs, 'skew) call \<Rightarrow> translator_id option" where
  "translator_of_call Call_GetRobotStateAsync = None"
| "translator_of_call Call_getClockSkew = None"
| "translator_of_call (Call_GetBatteryStates rs sk) = Some T_BatteryStates"
| "translator_of_call (Call_GetWifiState rs) = Some T_WifiState"
| "translator_of_call (Call_GetFootState rs) = Some T_FootState"
| "translator_of_call (Call_GetEstopStates rs sk) = Some T_EstopStates"
| "translator_of_call (Call_GetJointStates rs sk fp) = Some T_JointStates"
| "translator_of_call (Call_GetTf rs sk fp pf) = Some T_Tf"
| "translator_of_call (Call_GetOdomTwist rs sk) = Some T_OdomTwist"
| "translator_of_call (Call_GetOdom rs sk fp v) = Some T_Odom"
| "translator_of_call (Call_GetPowerState rs sk) = Some T_PowerState"
| "translator_of_call (Call_GetSystemFaultState rs sk) = Some T_SystemFaultState"
| "translator_of_call (Call_GetManipulatorState rs) = Some T_ManipulatorState"
| "translator_of_call (Call_GetEndEffectorForce rs sk fp) = Some T_EndEffectorForce"
| "translator_of_call (Call_GetBehaviorFaultState rs sk) = Some T_BehaviorFaultState"




text \<open>The boolean that a call hands to the odometry translator.\<close>

fun is_using_vision_of_call :: "('rs, 'skew) call \<Rightarrow> bool option" where
  "is_using_vision_of_call (Call_GetOdom rs sk fp v) = Some v"
| "is_using_vision_of_call c = None"

text \<open>The fetch has succeeded: the status is truthy and the response has its payload.\<close>

definition fetch_ok :: "'rs RobotStateResultType \<Rightarrow> bool" where
  "fetch_ok res = (status_ok (status res) \<and> has_robot_state (response res))"

text \<open>The aggregate that the thirteen translators give for a raw state, a clock skew, a
  frame prefix and a preferred odometry frame.\<close>

definition assembled ::
  "('rs, 'skew, 'bat, 'wifi, 'foot, 'estop, 'joint, 'tf, 'twist, 'odom, 'power, 'sfault, 'manip, 'force, 'bfault) translators \<Rightarrow> 'rs \<Rightarrow> 'skew \<Rightarrow> string \<Rightarrow> string \<Rightarrow> ('bat, 'wifi, 'foot, 'estop, 'joint, 'tf, 'twist, 'odom, 'power, 'sfault, 'manip, 'force, 'bfault) RobotState" where
  "assembled tr rs sk fp pf =
     \<lparr>battery_states = GetBatteryStates tr rs sk,
      wifi_state = GetWifiState tr rs,
      foot_states = GetFootState tr rs,
      estop_states = GetEstopStates tr rs sk,
      joint_states = GetJointStates tr rs sk fp,
      tf_msg = GetTf tr rs sk fp pf,
      odom_twist = GetOdomTwist tr rs sk,
      odom_msg = GetOdom tr rs sk fp (pf = fp @ ''vision''),
      power_state = GetPowerState tr rs sk,
      system_faults = GetSystemFaultState tr rs sk,
      manipulator_state = GetManipulatorState tr rs,
      end_effector_force = GetEndEffectorForce tr rs sk fp,
      behavior_fault_state = GetBehaviorFaultState tr rs sk\<rparr>"

text \<open>The thirteen translator calls of a successful \<^verbatim>\<open>getRobotState\<close>, in order.\<close>

definition translator_calls :: "'rs \<Rightarrow> 'skew \<Rightarrow> string \<Rightarrow> string \<Rightarrow> ('rs, 'skew) call list" where
  "translator_calls rs sk fp pf =
     [Call_GetBatteryStates rs sk, Call_GetWifiState rs, Call_GetFootState rs,
      Call_GetEstopStates rs sk, Call_GetJointStates rs sk fp, Call_GetTf rs sk fp pf,
      Call_GetOdomTwist rs sk, Call_GetOdom rs sk fp (pf = fp @ ''vision''),
      Call_GetPowerState rs sk, Call_GetSystemFaultState rs sk, Call_GetManipulatorState rs,
      Call_GetEndEffectorForce rs sk fp, Call_GetBehaviorFaultState rs sk]"


text \<open>
  Collaborators and translators to run the code on.  The raw state is a number, the skew
  an integer, and every translator returns the arguments it was handed.  The flaky client
  fails the first request and would answer a second one.
\<close>

definition ok_result :: "nat RobotStateResultType" where
  "ok_result = \<lparr>status = \<lparr>status_ok = True, DebugString = ''OK''\<rparr>,
                response = \<lparr>robot_state = Some 7\<rparr>\<rparr>"

definition timeout_result :: "nat RobotStateResultType" where
  "timeout_result = \<lparr>status = \<lparr>status_ok = False, DebugString = ''timeout''\<rparr>,
                     response = \<lparr>robot_state = None\<rparr>\<rparr>"

definition empty_result :: "nat RobotStateResultType" where
  "empty_result = \<lparr>status = \<lparr>status_ok = True, DebugString = ''OK''\<rparr>,
                   response = \<lparr>robot_state = None\<rparr>\<rparr>"

definition flaky_client :: "(nat, int) call list \<Rightarrow> nat RobotStateResultType" where
  "flaky_client calls =
     (if Call_GetRobotStateAsync \<in> set calls then ok_result else timeout_result)"

definition echo_translators ::
  "(nat, int, nat \<times> int, nat, nat, nat \<times> int, nat \<times> int \<times> string,
    nat \<times> int \<times> string \<times> string, nat \<times> int, nat \<times> int \<times> string \<times> bool, nat \<times> int,
    nat \<times> int, nat, nat \<times> int \<times> string, nat \<times> int) translators" where
  "echo_translators =
     \<lparr>GetBatteryStates = (\<lambda>rs sk. (rs, sk)),
      GetWifiState = (\<lambda>rs. rs),
      GetFootState = (\<lambda>rs. rs),
      GetEstopStates = (\<lambda>rs sk. (rs, sk)),
      GetJointStates = (\<lambda>rs sk fp. (rs, sk, fp)),
      GetTf = (\<lambda>rs sk fp pf. (rs, sk, fp, pf)),
      GetOdomTwist = (\<lambda>rs sk. (rs, sk)),
      GetOdom = (\<lambda>rs sk fp v. (rs, sk, fp, v)),
      GetPowerState = (\<lambda>rs sk. (rs, sk)),
      GetSystemFaultState = (\<lambda>rs sk. (rs, sk)),
      GetManipulatorState = (\<lambda>rs. rs),
      GetEndEffectorForce = (\<lambda>rs sk fp. (rs, sk, fp)),
      GetBehaviorFaultState = (\<lambda>rs sk. (rs, sk))\<rparr>"

definition spot1 :: "(nat, int) DefaultRobotStateClient" where
  "spot1 = DefaultRobotStateClient_ctor (\<lambda>calls. ok_result) (\<lambda>calls. Inr 5) ''spot1''"

definition spot1_no_sync :: "(nat, int) DefaultRobotStateClient" where
  "spot1_no_sync =
     DefaultRobotStateClient_ctor (\<lambda>calls. ok_result) (\<lambda>calls. Inl ''no time sync'') ''spot1''"

definition spot1_flaky :: "(nat, int) DefaultRobotStateClient" where
  "spot1_flaky = DefaultRobotStateClient_ctor flaky_client (\<lambda>calls. Inr 5) ''spot1''"

definition spot1_empty :: "(nat, int) DefaultRobotStateClient" where
  "spot1_empty = DefaultRobotStateClient_ctor (\<lambda>calls. empty_result) (\<lambda>calls. Inr 5) ''spot1''"

section \<open>Round trips\<close>

lemma sec_round_trip: "(ucast (scast (s :: 32 word) :: 64 word) :: 32 word) = s"
  by (rule bit_word_eqI) (auto simp add: bit_ucast_iff bit_word_scast_iff)

lemma Time_round_trip:
  "convertProtoToBuiltinInterfacesTime (convertBuiltinInterfacesTimeToProto t proto0) ros0 = t"
  by (simp add: convertProtoToBuiltinInterfacesTime_def convertBuiltinInterfacesTimeToProto_def
      sec_round_trip)

lemma Vector3_round_trip:
  "convertProtoToGeometryMsgsVector3 (convertGeometryMsgsVector3ToProto v proto0) ros0 = v"
  by (simp add: convertProtoToGeometryMsgsVector3_def convertGeometryMsgsVector3ToProto_def)

lemma Point_round_trip:
  "convertProtoToGeometryMsgsVector3_Point (convertGeometryMsgsPointToProto p proto0) ros0 = p"
  by (simp add: convertProtoToGeometryMsgsVector3_Point_def convertGeometryMsgsPointToProto_def)

lemma Quaternion_round_trip:
  "convertProtoToGeometryMsgsQuaternion (convertGeometryMsgsQuaternionToProto q proto0) ros0 = q"
  by (simp add: convertProtoToGeometryMsgsQuaternion_def convertGeometryMsgsQuaternionToProto_def)

lemma Pose_round_trip:
  "convertProtoToGeometryMsgsPose (convertGeometryMsgsPoseToProto p proto0) ros0 = p"
  by (simp add: convertProtoToGeometryMsgsPose_def convertGeometryMsgsPoseToProto_def Let_def
      or_default_def Point_round_trip Quaternion_round_trip)

text \<open>
  Claim C7.  Converting a ROS quaternion, 3-vector, point, pose or timestamp to protobuf and
  the result back to ROS gives back the original message, whatever the protobuf object and
  the ROS object handed to the converters held before; the protobuf message in between holds
  the very components of the ROS message (w, x, y, z; x, y, z; seconds and nanoseconds),
  with no renormalisation.
\<close>

theorem ros_proto_ros_round_trip:
  "convertProtoToGeometryMsgsQuaternion (convertGeometryMsgsQuaternionToProto q pq0) q0 = q
   \<and> convertProtoToGeometryMsgsVector3 (convertGeometryMsgsVector3ToProto v pv0) v0 = v
   \<and> convertProtoToGeometryMsgsVector3_Point (convertGeometryMsgsPointToProto pt pv1) pt0 = pt
   \<and> convertProtoToGeometryMsgsPose (convertGeometryMsgsPoseToProto p pp0) p0 = p
   \<and> convertProtoToBuiltinInterfacesTime (convertBuiltinInterfacesTimeToProto t pt1) t0 = t
   \<and> convertGeometryMsgsQuaternionToProto q pq0 =
        \<lparr>pb_Quaternion_x = Quaternion_x q, pb_Quaternion_y = Quaternion_y q,
         pb_Quaternion_z = Quaternion_z q, pb_Quaternion_w = Quaternion_w q\<rparr>
   \<and> convertGeometryMsgsVector3ToProto v pv0 =
        \<lparr>Vec3_x = Vector3_x v, Vec3_y = Vector3_y v, Vec3_z = Vector3_z v\<rparr>
   \<and> sint (seconds (convertBuiltinInterfacesTimeToProto t pt1)) = sint (sec t)
   \<and> uint (nanos (convertBuiltinInterfacesTimeToProto t pt1)) = uint (nanosec t)"
proof (intro conjI)
  show "convertGeometryMsgsQuaternionToProto q pq0 =
        \<lparr>pb_Quaternion_x = Quaternion_x q, pb_Quaternion_y = Quaternion_y q,
         pb_Quaternion_z = Quaternion_z q, pb_Quaternion_w = Quaternion_w q\<rparr>"
    by (simp add: convertGeometryMsgsQuaternionToProto_def)
  show "convertGeometryMsgsVector3ToProto v pv0 =
        \<lparr>Vec3_x = Vector3_x v, Vec3_y = Vector3_y v, Vec3_z = Vector3_z v\<rparr>"
    by (simp add: convertGeometryMsgsVector3ToProto_def)
  show "sint (seconds (convertBuiltinInterfacesTimeToProto t pt1)) = sint (sec t)"
    by (simp add: convertBuiltinInterfacesTimeToProto_def sint_up_scast is_up)
  show "uint (nanos (convertBuiltinInterfacesTimeToProto t pt1)) = uint (nanosec t)"
    by (simp add: convertBuiltinInterfacesTimeToProto_def)
qed (simp_all only: Time_round_trip Vector3_round_trip Point_round_trip Quaternion_round_trip
      Pose_round_trip)

section \<open>Optional fields\<close>

text \<open>What the arm joint converter does to any protobuf object it is handed: a joint whose
  flag is set is created if need be and its value overwritten; a joint whose flag is not
  set is left as it was.\<close>

lemma ArmJointPosition_field:
  "proto_joint f (convertBosdynMsgsArmJointPositionToProto ros_msg proto) =
     (if ros_joint_is_set f ros_msg
      then Some ((or_default DoubleValue_default (proto_joint f proto))
                   \<lparr>DoubleValue_value := ros_joint_value f ros_msg\<rparr>)
      else proto_joint f proto)"
  by (cases f) (simp_all add: convertBosdynMsgsArmJointPositionToProto_def Let_def
      convertGloat64ToProto_def)

text \<open>
  Claim C6.  For every ArmJointPosition message and every joint \<open>f\<close> of sh0, sh1, el0, el1,
  wr0, wr1, the protobuf message that \<^verbatim>\<open>convertBosdynMsgsArmJointPositionToProto\<close> fills,
  starting from a newly constructed one, has \<open>f\<close> present exactly when the message's
  \<^verbatim>\<open>f_is_set\<close> flag is true, and then with the message's value; a joint that is not set
  stays absent.
\<close>

theorem ArmJointPosition_presence:
  "proto_joint f (convertBosdynMsgsArmJointPositionToProto ros_msg ArmJointPosition_default) =
     (if ros_joint_is_set f ros_msg
      then Some \<lparr>DoubleValue_value = ros_joint_value f ros_msg\<rparr>
      else None)"
  by (cases f) (simp_all add: ArmJointPosition_field ArmJointPosition_default_def
      or_default_def DoubleValue_default_def)

text \<open>The request header converter follows the same rule for its timestamp.\<close>

lemma RequestHeaderToProto_timestamp:
  "pb_request_timestamp (convertBosdynMsgsRequestHeaderToProto ros_msg RequestHeader_default) =
     (if request_timestamp_is_set ros_msg
      then Some \<lparr>seconds = scast (sec (request_timestamp ros_msg)),
                  nanos = nanosec (request_timestamp ros_msg)\<rparr>
      else None)"
  by (simp add: convertBosdynMsgsRequestHeaderToProto_def Let_def RequestHeader_default_def
      or_default_def Timestamp_default_def convertBuiltinInterfacesTimeToProto_def)

lemma Time_of_default:
  "convertProtoToBuiltinInterfacesTime Timestamp_default ros0 = \<lparr>sec = 0, nanosec = 0\<rparr>"
  by (simp add: convertProtoToBuiltinInterfacesTime_def Timestamp_default_def)

lemma Time_of_proto:
  "convertProtoToBuiltinInterfacesTime ts ros0 =
     \<lparr>sec = ucast (seconds ts), nanosec = nanos ts\<rparr>"
  by (simp add: convertProtoToBuiltinInterfacesTime_def)

lemma CommonError_of_proto:
  "convertProtoToBosdynMsgsCommonError e ros0 =
     \<lparr>code_value = ucast (pb_code e), message = pb_message e\<rparr>"
  by (simp add: convertProtoToBosdynMsgsCommonError_def Let_def)

lemma RequestHeader_of_proto:
  "convertProtoToBosdynMsgsRequestHeader proto ros0 =
     \<lparr>request_timestamp =
        (case pb_request_timestamp proto of
           None \<Rightarrow> \<lparr>sec = 0, nanosec = 0\<rparr>
         | Some ts \<Rightarrow> \<lparr>sec = ucast (seconds ts), nanosec = nanos ts\<rparr>),
      request_timestamp_is_set = (pb_request_timestamp proto \<noteq> None),
      client_name = pb_client_name proto,
      disable_rpc_logging = pb_disable_rpc_logging proto\<rparr>"
  by (cases ros0)
    (simp add: convertProtoToBosdynMsgsRequestHeader_def Let_def or_default_def Time_of_proto
      Timestamp_default_def split: option.split)

text \<open>
  Claim C9.  Converting a protobuf RequestHeader or ResponseHeader to its ROS message copies
  the value of every optional sub-field (request timestamp, request-received timestamp,
  response timestamp, error) whether the field is present or not, so that an absent field
  leaves the protobuf default (zeros, the empty string) in the ROS value, and sets the
  companion \<^verbatim>\<open>_is_set\<close> flag to the protobuf presence bit.  An absent field and a
  present field holding the default give the same ROS value and differ in the flag alone.
\<close>

theorem header_presence_flags:
  fixes ros0 :: bosdyn_msgs_RequestHeader
    and rsp0 :: "('w::len word) bosdyn_msgs_ResponseHeader"
  shows
  "request_timestamp (convertProtoToBosdynMsgsRequestHeader proto ros0) =
     (case pb_request_timestamp proto of
        None \<Rightarrow> \<lparr>sec = 0, nanosec = 0\<rparr>
      | Some ts \<Rightarrow> \<lparr>sec = ucast (seconds ts), nanosec = nanos ts\<rparr>)
   \<and> request_timestamp_is_set (convertProtoToBosdynMsgsRequestHeader proto ros0) =
        (pb_request_timestamp proto \<noteq> None)
   \<and> request_received_timestamp (convertProtoToBosdynMsgsResponseHeader rsp rsp0) =
     (case pb_request_received_timestamp rsp of
        None \<Rightarrow> \<lparr>sec = 0, nanosec = 0\<rparr>
      | Some ts \<Rightarrow> \<lparr>sec = ucast (seconds ts), nanosec = nanos ts\<rparr>)
   \<and> request_received_timestamp_is_set (convertProtoToBosdynMsgsResponseHeader rsp rsp0) =
        (pb_request_received_timestamp rsp \<noteq> None)
   \<and> response_timestamp (convertProtoToBosdynMsgsResponseHeader rsp rsp0) =
     (case pb_response_timestamp rsp of
        None \<Rightarrow> \<lparr>sec = 0, nanosec = 0\<rparr>
      | Some ts \<Rightarrow> \<lparr>sec = ucast (seconds ts), nanosec = nanos ts\<rparr>)
   \<and> response_timestamp_is_set (convertProtoToBosdynMsgsResponseHeader rsp rsp0) =
        (pb_response_timestamp rsp \<noteq> None)
   \<and> error (convertProtoToBosdynMsgsResponseHeader rsp rsp0) =
     (case pb_error rsp of
        None \<Rightarrow> \<lparr>code_value = 0, message = []\<rparr>
      | Some e \<Rightarrow> \<lparr>code_value = ucast (pb_code e), message = pb_message e\<rparr>)
   \<and> error_is_set (convertProtoToBosdynMsgsResponseHeader rsp rsp0) = (pb_error rsp \<noteq> None)
   \<and> request_header (convertProtoToBosdynMsgsResponseHeader rsp rsp0) =
        convertProtoToBosdynMsgsRequestHeader
          (case pb_request_header rsp of None \<Rightarrow> RequestHeader_default | Some h \<Rightarrow> h) ros0
   \<and> request_header_is_set (convertProtoToBosdynMsgsResponseHeader rsp rsp0) =
        (pb_request_header rsp \<noteq> None)
   \<and> request_timestamp
        (convertProtoToBosdynMsgsRequestHeader (proto\<lparr>pb_request_timestamp := None\<rparr>) ros0) =
     request_timestamp
        (convertProtoToBosdynMsgsRequestHeader
           (proto\<lparr>pb_request_timestamp := Some Timestamp_default\<rparr>) ros0)
   \<and> request_timestamp_is_set
        (convertProtoToBosdynMsgsRequestHeader (proto\<lparr>pb_request_timestamp := None\<rparr>) ros0) \<noteq>
     request_timestamp_is_set
        (convertProtoToBosdynMsgsRequestHeader
           (proto\<lparr>pb_request_timestamp := Some Timestamp_default\<rparr>) ros0)"
proof (intro conjI)
  show "error (convertProtoToBosdynMsgsResponseHeader rsp rsp0) =
     (case pb_error rsp of
        None \<Rightarrow> \<lparr>code_value = 0, message = []\<rparr>
      | Some e \<Rightarrow> \<lparr>code_value = ucast (pb_code e), message = pb_message e\<rparr>)"
    by (simp add: convertProtoToBosdynMsgsResponseHeader_def Let_def or_default_def
        CommonError_of_proto CommonError_default_def split: option.split)
  show "request_header (convertProtoToBosdynMsgsResponseHeader rsp rsp0) =
        convertProtoToBosdynMsgsRequestHeader
          (case pb_request_header rsp of None \<Rightarrow> RequestHeader_default | Some h \<Rightarrow> h) ros0"
    by (simp add: convertProtoToBosdynMsgsResponseHeader_def Let_def or_default_def
        RequestHeader_of_proto)
qed (simp_all add: RequestHeader_of_proto convertProtoToBosdynMsgsResponseHeader_def Let_def
      or_default_def Time_of_proto Timestamp_default_def split: option.split)


section \<open>The joint map\<close>

lemma namespaced_loop_eq:
  "namespaced_loop p xs m = m ++ map_of (rev (map (\<lambda>pr. (p @ fst pr, snd pr)) xs))"
proof (induction xs arbitrary: m)
  case Nil
  then show ?case by simp
next
  case (Cons x xs)
  have "m(p @ fst x \<mapsto> snd x) = m ++ [p @ fst x \<mapsto> snd x]" by simp
  then show ?case
    by (simp add: Cons.IH map_add_assoc del: map_add_upd)
qed

lemma distinct_default_keys: "distinct (map fst (default_joint_map has_arm))"
  by (simp add: default_joint_map_def kJointNameToIndexWithArm_def kJointNameToIndexWithoutArm_def)

lemma distinct_default_indices: "distinct (map snd (default_joint_map has_arm))"
  by (simp add: default_joint_map_def kJointNameToIndexWithArm_def kJointNameToIndexWithoutArm_def)

lemma default_indices_bound:
  "pr \<in> set (default_joint_map has_arm) \<Longrightarrow> snd pr < (if has_arm then kNjointsArm else kNjointsNoArm)"
  by (auto simp add: default_joint_map_def kJointNameToIndexWithArm_def kJointNameToIndexWithoutArm_def
      kNjointsArm_def kNjointsNoArm_def)

lemma map_of_rev_distinct:
  assumes "distinct (map fst ys)"
  shows "map_of (rev ys) = map_of ys"
proof -
  have "distinct (map fst (rev ys))" using assms by (simp add: rev_map [symmetric] )
  then show ?thesis using assms by (simp add: map_of_inject_set)
qed

lemma get_namespaced_joint_map_eq:
  "get_namespaced_joint_map spot_name has_arm =
     map_of (map (\<lambda>pr. (joint_prefix_of spot_name @ fst pr, snd pr)) (default_joint_map has_arm))"
proof (cases "spot_name = []")
  case True
  then show ?thesis by (simp add: get_namespaced_joint_map_def joint_prefix_of_def)
next
  case False
  let ?f = "\<lambda>pr::string \<times> nat. ((spot_name @ ''/'') @ fst pr, snd pr)"
  have "map fst (map ?f (default_joint_map has_arm)) = map ((@) (spot_name @ ''/'')) (map fst (default_joint_map has_arm))"
    by simp
  then have "distinct (map fst (map ?f (default_joint_map has_arm)))"
    using distinct_default_keys [of has_arm] by (simp only: distinct_map) (simp add: inj_on_def)
  then have "map_of (rev (map ?f (default_joint_map has_arm))) = map_of (map ?f (default_joint_map has_arm))"
    by (rule map_of_rev_distinct)
  with False show ?thesis
    by (simp add: get_namespaced_joint_map_def joint_prefix_of_def Let_def namespaced_loop_eq)
qed



lemma write_joint_ok:
  assumes "sized n out" "j < n" "covers n inp" "i < n"
  shows "write_joint i j nm inp out =
     (True, \<lparr>name = (name out)[j := nm],
             position = (position out)[j := position inp ! i],
             velocity = (velocity out)[j := velocity inp ! i],
             effort = (effort out)[j := effort inp ! i]\<rparr>)"
  using assms by (cases out) (simp add: write_joint_def sized_def covers_def Let_def)

lemma order_loop_step:
  assumes "sized n out" "covers n inp" "i < n" "\<And>k v. jm k = Some v \<Longrightarrow> v < n"
  shows "order_loop jm inp n i out =
     (case jm (name inp ! i) of
        None \<Rightarrow> (Returned False, out)
      | Some j \<Rightarrow> order_loop jm inp n (Suc i)
           \<lparr>name = (name out)[j := name inp ! i],
             position = (position out)[j := position inp ! i],
             velocity = (velocity out)[j := velocity inp ! i],
             effort = (effort out)[j := effort inp ! i]\<rparr>)"
proof (cases "jm (name inp ! i)")
  case None
  with assms show ?thesis
    by (subst order_loop.simps) (simp add: covers_def)
next
  case (Some j)
  then have "j < n" using assms(4) by blast
  from write_joint_ok [OF assms(1) this assms(2,3)] Some assms show ?thesis
    by (subst order_loop.simps) (simp add: covers_def)
qed

lemma order_loop_done: "\<not> i < n \<Longrightarrow> order_loop jm inp n i out = (Returned True, out)"
  by (subst order_loop.simps) simp

lemma order_loop_result:
  assumes "covers n inp" "\<And>k v. jm k = Some v \<Longrightarrow> v < n"
  shows "sized n out \<Longrightarrow>
     fst (order_loop jm inp n i out) = Returned (\<forall>k. i \<le> k \<and> k < n \<longrightarrow> jm (name inp ! k) \<noteq> None)
     \<and> sized n (snd (order_loop jm inp n i out))"
proof (induction "n - i" arbitrary: i out)
  case 0
  then show ?case by (auto simp add: order_loop_done)
next
  case (Suc d)
  then have lt: "i < n" by simp
  show ?case
  proof (cases "jm (name inp ! i)")
    case None
    then show ?thesis using lt Suc.prems
      by (auto simp add: order_loop_step [OF Suc.prems assms(1) lt assms(2)])
  next
    case (Some j)
    let ?out = "\<lparr>name = (name out)[j := name inp ! i],
             position = (position out)[j := position inp ! i],
             velocity = (velocity out)[j := velocity inp ! i],
             effort = (effort out)[j := effort inp ! i]\<rparr>"
    have s: "sized n ?out" using Suc.prems by (simp add: sized_def)
    have d: "d = n - Suc i" using Suc.hyps(2) by simp
    have "(\<forall>k. i \<le> k \<and> k < n \<longrightarrow> jm (name inp ! k) \<noteq> None)
        = (\<forall>k. Suc i \<le> k \<and> k < n \<longrightarrow> jm (name inp ! k) \<noteq> None)"
      using Some by (metis Suc_leI le_neq_implies_less option.distinct(1) Suc_leD)
    then show ?thesis
      using Suc.hyps(1) [OF d s] Some
      by (simp add: order_loop_step [OF Suc.prems assms(1) lt assms(2)])
  qed
qed


lemma order_loop_frame:
  assumes "covers n inp" "\<And>k v. jm k = Some v \<Longrightarrow> v < n"
  shows "sized n out \<Longrightarrow> (\<And>k. i \<le> k \<Longrightarrow> k < n \<Longrightarrow> jm (name inp ! k) \<noteq> Some j) \<Longrightarrow>
     entry_at (snd (order_loop jm inp n i out)) j = entry_at out j"
proof (induction "n - i" arbitrary: i out)
  case 0
  then show ?case by (simp add: order_loop_done)
next
  case (Suc d)
  then have lt: "i < n" by simp
  show ?case
  proof (cases "jm (name inp ! i)")
    case None
    then show ?thesis
      by (simp add: order_loop_step [OF Suc.prems(1) assms(1) lt assms(2)])
  next
    case (Some j')
    let ?out = "\<lparr>name = (name out)[j' := name inp ! i],
             position = (position out)[j' := position inp ! i],
             velocity = (velocity out)[j' := velocity inp ! i],
             effort = (effort out)[j' := effort inp ! i]\<rparr>"
    have s: "sized n ?out" using Suc.prems(1) by (simp add: sized_def)
    have d: "d = n - Suc i" using Suc.hyps(2) by simp
    have ne: "j' \<noteq> j" using Suc.prems(2) [of i] lt Some by auto
    have "entry_at (snd (order_loop jm inp n (Suc i) ?out)) j = entry_at ?out j"
      by (rule Suc.hyps(1) [OF d s]) (use Suc.prems(2) in auto)
    also have "\<dots> = entry_at out j" using ne by (simp add: entry_at_def)
    finally show ?thesis
      using Some by (simp add: order_loop_step [OF Suc.prems(1) assms(1) lt assms(2)])
  qed
qed

lemma order_loop_last_wins:
  assumes "covers n inp" "\<And>k v. jm k = Some v \<Longrightarrow> v < n"
    and inj: "\<And>a b v. jm a = Some v \<Longrightarrow> jm b = Some v \<Longrightarrow> a = b"
    and last: "\<And>k'. k < k' \<Longrightarrow> k' < n \<Longrightarrow> name inp ! k' \<noteq> name inp ! k"
    and "k < n"
  shows "sized n out \<Longrightarrow> i \<le> k \<Longrightarrow> fst (order_loop jm inp n i out) = Returned True \<Longrightarrow>
     (\<exists>j. jm (name inp ! k) = Some j \<and> j < n \<and>
        entry_at (snd (order_loop jm inp n i out)) j =
          (name inp ! k, position inp ! k, velocity inp ! k, effort inp ! k))"
proof (induction "n - i" arbitrary: i out)
  case 0
  then show ?case using assms(5) by simp
next
  case (Suc d)
  then have lt: "i < n" by simp
  note step = order_loop_step [OF Suc.prems(1) assms(1) lt assms(2)]
  show ?case
  proof (cases "jm (name inp ! i)")
    case None
    then show ?thesis using Suc.prems(3) by (simp add: step)
  next
    case (Some j')
    let ?out = "\<lparr>name = (name out)[j' := name inp ! i],
             position = (position out)[j' := position inp ! i],
             velocity = (velocity out)[j' := velocity inp ! i],
             effort = (effort out)[j' := effort inp ! i]\<rparr>"
    have s: "sized n ?out" using Suc.prems(1) by (simp add: sized_def)
    have d: "d = n - Suc i" using Suc.hyps(2) by simp
    have j'n: "j' < n" using assms(2) Some by blast
    have eq: "order_loop jm inp n i out = order_loop jm inp n (Suc i) ?out"
      using Some by (simp add: step)
    show ?thesis
    proof (cases "i = k")
      case True
      have "entry_at (snd (order_loop jm inp n (Suc i) ?out)) j' = entry_at ?out j'"
      proof (rule order_loop_frame [OF assms(1,2) s])
        fix k' assume "Suc i \<le> k'" "k' < n"
        then have "name inp ! k' \<noteq> name inp ! k" using last True by simp
        then show "jm (name inp ! k') \<noteq> Some j'" using inj Some True by blast
      qed
      also have "\<dots> = (name inp ! k, position inp ! k, velocity inp ! k, effort inp ! k)"
        using j'n Suc.prems(1) True by (simp add: entry_at_def sized_def)
      finally show ?thesis using Some True j'n eq by auto
    next
      case False
      then have "Suc i \<le> k" using Suc.prems(2) by simp
      from Suc.hyps(1) [OF d s this] Suc.prems(3) show ?thesis by (simp add: eq)
    qed
  qed
qed


lemma joint_map_bound:
  assumes "get_namespaced_joint_map spot_name has_arm k = Some v"
  shows "v < (if has_arm then kNjointsArm else kNjointsNoArm)"
proof -
  from assms have "(k, v) \<in> set (map (\<lambda>pr. (joint_prefix_of spot_name @ fst pr, snd pr)) (default_joint_map has_arm))"
    by (simp only: get_namespaced_joint_map_eq) (rule map_of_SomeD)
  then obtain pr where "pr \<in> set (default_joint_map has_arm)" "v = snd pr" by auto
  then show ?thesis using default_indices_bound by blast
qed

lemma joint_map_inj:
  assumes "get_namespaced_joint_map spot_name has_arm a = Some v"
      and "get_namespaced_joint_map spot_name has_arm b = Some v"
  shows "a = b"
proof -
  let ?p = "joint_prefix_of spot_name"
  let ?ys = "default_joint_map has_arm"
  from assms(1) have "(a, v) \<in> set (map (\<lambda>pr. (?p @ fst pr, snd pr)) ?ys)"
    by (simp only: get_namespaced_joint_map_eq) (rule map_of_SomeD)
  then obtain pa where pa: "pa \<in> set ?ys" "a = ?p @ fst pa" "v = snd pa" by auto
  from assms(2) have "(b, v) \<in> set (map (\<lambda>pr. (?p @ fst pr, snd pr)) ?ys)"
    by (simp only: get_namespaced_joint_map_eq) (rule map_of_SomeD)
  then obtain pb where pb: "pb \<in> set ?ys" "b = ?p @ fst pb" "v = snd pb" by auto
  have "inj_on snd (set ?ys)"
    using distinct_default_indices [of has_arm] by (simp add: distinct_map)
  then have "pa = pb" using pa pb by (auto dest: inj_onD)
  then show ?thesis using pa pb by simp
qed

lemma order_joint_states_unfold:
  assumes "length (position inp) = (if has_arm then kNjointsArm else kNjointsNoArm)"
  shows "order_joint_states spot_name inp out =
     order_loop (get_namespaced_joint_map spot_name has_arm) inp (length (position inp)) 0
       \<lparr>name = resize (length (position inp)) [] (name out),
        position = resize (length (position inp)) 0 (position out),
        velocity = resize (length (position inp)) 0 (velocity out),
        effort = resize (length (position inp)) 0 (effort out)\<rparr>"
  using assms
  by (cases out; cases has_arm)
     (simp_all add: order_joint_states_def Let_def kNjointsArm_def kNjointsNoArm_def)

lemma sized_resize:
  "sized n \<lparr>name = resize n a (name out), position = resize n b (position out),
        velocity = resize n c (velocity out), effort = resize n d (effort out)\<rparr>"
  by (simp add: sized_def resize_def min_def)

text \<open>
  Claim C10, as amended.  Let \<open>N\<close> be the number of entries of the position array of the
  input, and let the name, velocity and effort arrays have at least \<open>N\<close> entries each.  Then
  \<^verbatim>\<open>order_joint_states\<close> returns, and it returns true exactly when \<open>N\<close> is 19 (arm) or 12
  (no arm) and each of the first \<open>N\<close> names occurs in the namespaced joint map.  On success
  the four output arrays have \<open>N\<close> entries, and for each input joint below \<open>N\<close> whose name
  does not occur again at a later index below \<open>N\<close>, the output entries at the map's index
  for its name are that joint's name, position, velocity and effort (of two joints with one
  name, the later one overwrites the earlier one).  A failure on an unknown name can leave
  the output partly overwritten: with the unknown name in the last place, the entries of
  the joints before it have been written and the others still hold their old values.
\<close>

theorem order_joint_states_last_wins:
  assumes "length (position inp) \<le> length (name inp)"
      and "length (position inp) \<le> length (velocity inp)"
      and "length (position inp) \<le> length (effort inp)"
  shows "fst (order_joint_states spot_name inp out) =
       Returned ((length (position inp) = 19 \<or> length (position inp) = 12) \<and>
                 (\<forall>k<length (position inp).
                    get_namespaced_joint_map spot_name (length (position inp) = 19) (name inp ! k) \<noteq> None))
    \<and> (fst (order_joint_states spot_name inp out) = Returned True \<longrightarrow>
         sized (length (position inp)) (snd (order_joint_states spot_name inp out)) \<and>
         (\<forall>k<length (position inp).
            (\<forall>k'. k < k' \<and> k' < length (position inp) \<longrightarrow> name inp ! k' \<noteq> name inp ! k) \<longrightarrow>
            (\<exists>j. get_namespaced_joint_map spot_name (length (position inp) = 19) (name inp ! k) = Some j \<and>
                 entry_at (snd (order_joint_states spot_name inp out)) j = entry_at inp k)))
    \<and> fst (order_joint_states [] legs_unknown old_output) = Returned False
    \<and> entry_at (snd (order_joint_states [] legs_unknown old_output)) 1 = entry_at legs_unknown 10
    \<and> entry_at (snd (order_joint_states [] legs_unknown old_output)) 0 = entry_at old_output 0"
proof -
  let ?n = "length (position inp)"
  let ?h = "?n = 19"
  let ?jm = "get_namespaced_joint_map spot_name ?h"
  let ?out0 = "\<lparr>name = resize ?n [] (name out), position = resize ?n 0 (position out),
        velocity = resize ?n 0 (velocity out), effort = resize ?n 0 (effort out)\<rparr>"
  have ex: "fst (order_joint_states [] legs_unknown old_output) = Returned False
    \<and> entry_at (snd (order_joint_states [] legs_unknown old_output)) 1 = entry_at legs_unknown 10
    \<and> entry_at (snd (order_joint_states [] legs_unknown old_output)) 0 = entry_at old_output 0"
    by (simp add: order_joint_states_def legs_unknown_def legs_reversed_def old_output_def
        kNjointsArm_def kNjointsNoArm_def resize_def get_namespaced_joint_map_def
        default_joint_map_def kJointNameToIndexWithoutArm_def Let_def write_joint_def
        order_loop.simps entry_at_def)
  show ?thesis
  proof (cases "?n = 19 \<or> ?n = 12")
    case False
    then have "order_joint_states spot_name inp out = (Returned False, out)"
      by (simp add: order_joint_states_def Let_def kNjointsArm_def kNjointsNoArm_def)
    with False ex show ?thesis by simp
  next
    case True
    then have n: "?n = (if ?h then kNjointsArm else kNjointsNoArm)"
      by (auto simp add: kNjointsArm_def kNjointsNoArm_def)
    have eq: "order_joint_states spot_name inp out = order_loop ?jm inp ?n 0 ?out0"
      by (rule order_joint_states_unfold [OF n])
    have cov: "covers ?n inp" using assms by (simp add: covers_def)
    have bnd: "\<And>k v. ?jm k = Some v \<Longrightarrow> v < ?n"
      using joint_map_bound [of spot_name ?h] n by simp
    have sz: "sized ?n ?out0" by (rule sized_resize)
    note res = order_loop_result [OF cov bnd sz, where i = 0]
    have a: "fst (order_joint_states spot_name inp out) =
       Returned ((?n = 19 \<or> ?n = 12) \<and> (\<forall>k<?n. ?jm (name inp ! k) \<noteq> None))"
      using res True by (simp add: eq)
    have b: "sized ?n (snd (order_joint_states spot_name inp out))"
      using res by (simp add: eq)
    have c: "\<exists>j. ?jm (name inp ! k) = Some j \<and>
                 entry_at (snd (order_joint_states spot_name inp out)) j = entry_at inp k"
      if ok: "fst (order_joint_states spot_name inp out) = Returned True"
        and k: "k < ?n"
        and last: "\<forall>k'. k < k' \<and> k' < ?n \<longrightarrow> name inp ! k' \<noteq> name inp ! k" for k
    proof -
      have "\<exists>j. ?jm (name inp ! k) = Some j \<and> j < ?n \<and>
        entry_at (snd (order_loop ?jm inp ?n 0 ?out0)) j =
          (name inp ! k, position inp ! k, velocity inp ! k, effort inp ! k)"
      proof (rule order_loop_last_wins [OF cov bnd _ _ k sz])
        show "\<And>a b v. ?jm a = Some v \<Longrightarrow> ?jm b = Some v \<Longrightarrow> a = b"
          by (rule joint_map_inj)
        show "\<And>k'. k < k' \<Longrightarrow> k' < ?n \<Longrightarrow> name inp ! k' \<noteq> name inp ! k"
          using last by blast
        show "0 \<le> k" by simp
        show "fst (order_loop ?jm inp ?n 0 ?out0) = Returned True" using ok by (simp add: eq)
      qed
      then show ?thesis by (auto simp add: eq entry_at_def)
    qed
    from a b c ex show ?thesis by blast
  qed
qed

text \<open>
  Without the condition on repeated names the statement fails: twelve joints of which the
  first two carry the name of the joint with index 11 are ordered with success, and the
  output position at index 11 is the second joint's, not the first joint's.
\<close>

theorem order_joint_states_duplicate_counterexample:
  "length (position legs_duplicate) = 12
   \<and> length (name legs_duplicate) = 12
   \<and> length (velocity legs_duplicate) = 12
   \<and> length (effort legs_duplicate) = 12
   \<and> fst (order_joint_states [] legs_duplicate old_output) = Returned True
   \<and> get_namespaced_joint_map [] False (name legs_duplicate ! 0) = Some 11
   \<and> position (snd (order_joint_states [] legs_duplicate old_output)) ! 11 = 2
   \<and> position legs_duplicate ! 0 = 1
   \<and> position (snd (order_joint_states [] legs_duplicate old_output)) ! 11
         \<noteq> position legs_duplicate ! 0"
  by (simp add: order_joint_states_def legs_duplicate_def legs_reversed_def old_output_def
        kNjointsArm_def kNjointsNoArm_def resize_def get_namespaced_joint_map_def
        default_joint_map_def kJointNameToIndexWithoutArm_def Let_def write_joint_def
        order_loop.simps)

theorem order_joint_states_last_wins_witness:
  "length (position legs_reversed) \<le> length (name legs_reversed)
   \<and> length (position legs_reversed) \<le> length (velocity legs_reversed)
   \<and> length (position legs_reversed) \<le> length (effort legs_reversed)
   \<and> fst (order_joint_states [] legs_reversed old_output) = Returned True
   \<and> sized 12 (snd (order_joint_states [] legs_reversed old_output))
   \<and> get_namespaced_joint_map [] False (name legs_reversed ! 0) = Some 11
   \<and> entry_at (snd (order_joint_states [] legs_reversed old_output)) 11 = entry_at legs_reversed 0"
  using order_joint_states_last_wins [of legs_reversed "[]" old_output]
  by (simp add: order_joint_states_def legs_reversed_def old_output_def
        kNjointsArm_def kNjointsNoArm_def resize_def get_namespaced_joint_map_def
        default_joint_map_def kJointNameToIndexWithoutArm_def Let_def write_joint_def
        order_loop.simps entry_at_def sized_def)

section \<open>The assembly of the robot state\<close>

text \<open>The three ways a call of \<^verbatim>\<open>getRobotState\<close> can go.\<close>

lemma getRobotState_fetch_failed:
  assumes "\<not> fetch_ok (client_m self [])"
  shows "getRobotState self tr pf =
     (Inl (''Failed to get robot state: '' @ DebugString (status (client_m self []))),
      [Call_GetRobotStateAsync])"
  using assms by (auto simp add: getRobotState_def fetch_ok_def Let_def)

lemma getRobotState_skew_failed:
  assumes "fetch_ok (client_m self [])"
      and "time_sync_api_m self [Call_GetRobotStateAsync] = Inl e"
  shows "getRobotState self tr pf =
     (Inl (''Failed to get latest clock skew: '' @ e), [Call_GetRobotStateAsync, Call_getClockSkew])"
  using assms by (simp add: getRobotState_def fetch_ok_def Let_def)

lemma getRobotState_ok:
  assumes "fetch_ok (client_m self [])"
      and "time_sync_api_m self [Call_GetRobotStateAsync] = Inr sk"
  shows "getRobotState self tr pf =
     (Inr (assembled tr (the (robot_state (response (client_m self [])))) sk (frame_prefix_m self) pf),
      [Call_GetRobotStateAsync, Call_getClockSkew]
        @ translator_calls (the (robot_state (response (client_m self [])))) sk (frame_prefix_m self) pf)"
  using assms by (simp add: getRobotState_def fetch_ok_def Let_def assembled_def translator_calls_def)

lemma fetch_ok_payload:
  "fetch_ok res \<Longrightarrow> \<exists>rs. robot_state (response res) = Some rs"
  by (auto simp add: fetch_ok_def has_robot_state_def)

lemma getRobotState_cases:
  obtains
    (fetch_failed) "\<not> fetch_ok (client_m self [])"
      "getRobotState self tr pf =
         (Inl (''Failed to get robot state: '' @ DebugString (status (client_m self []))),
          [Call_GetRobotStateAsync])"
  | (skew_failed) e where "fetch_ok (client_m self [])"
      "time_sync_api_m self [Call_GetRobotStateAsync] = Inl e"
      "getRobotState self tr pf =
         (Inl (''Failed to get latest clock skew: '' @ e), [Call_GetRobotStateAsync, Call_getClockSkew])"
  | (ok) rs sk where "fetch_ok (client_m self [])"
      "robot_state (response (client_m self [])) = Some rs"
      "time_sync_api_m self [Call_GetRobotStateAsync] = Inr sk"
      "getRobotState self tr pf =
         (Inr (assembled tr rs sk (frame_prefix_m self) pf),
          [Call_GetRobotStateAsync, Call_getClockSkew] @ translator_calls rs sk (frame_prefix_m self) pf)"
proof (cases "fetch_ok (client_m self [])")
  case False
  then show ?thesis using fetch_failed getRobotState_fetch_failed by blast
next
  case True
  then obtain rs where rs: "robot_state (response (client_m self [])) = Some rs"
    using fetch_ok_payload by blast
  show ?thesis
  proof (cases "time_sync_api_m self [Call_GetRobotStateAsync]")
    case (Inl e)
    then show ?thesis using skew_failed True getRobotState_skew_failed by blast
  next
    case (Inr sk)
    from getRobotState_ok [OF True Inr, of tr pf] rs show ?thesis using ok [OF True rs Inr] by simp
  qed
qed

text \<open>The example collaborators, evaluated.\<close>

lemma examples_simps:
  "client_m spot1 = (\<lambda>calls. ok_result)"
  "client_m spot1_no_sync = (\<lambda>calls. ok_result)"
  "client_m spot1_flaky = flaky_client"
  "client_m spot1_empty = (\<lambda>calls. empty_result)"
  "time_sync_api_m spot1 = (\<lambda>calls. Inr 5)"
  "time_sync_api_m spot1_no_sync = (\<lambda>calls. Inl ''no time sync'')"
  "time_sync_api_m spot1_flaky = (\<lambda>calls. Inr 5)"
  "time_sync_api_m spot1_empty = (\<lambda>calls. Inr 5)"
  "frame_prefix_m spot1 = ''spot1/''"
  "fetch_ok ok_result"
  "\<not> fetch_ok timeout_result"
  "\<not> fetch_ok empty_result"
  "robot_state (response ok_result) = Some 7"
  "flaky_client [] = timeout_result"
  "flaky_client [Call_GetRobotStateAsync] = ok_result"
  "DebugString (status timeout_result) = ''timeout''"
  "DebugString (status empty_result) = ''OK''"
  "status_ok (status empty_result)"
  "\<not> has_robot_state (response empty_result)"
  "\<not> status_ok (status timeout_result)"
  by (simp_all add: spot1_def spot1_no_sync_def spot1_flaky_def spot1_empty_def
      DefaultRobotStateClient_ctor_def fetch_ok_def has_robot_state_def ok_result_def
      timeout_result_def empty_result_def flaky_client_def)

lemma run_spot1_flaky: "getRobotState spot1_flaky echo_translators ''spot1/odom'' =
       (Inl ''Failed to get robot state: timeout'', [Call_GetRobotStateAsync])"
  by (simp add: getRobotState_fetch_failed examples_simps)

lemma run_spot1_no_sync: "getRobotState spot1_no_sync echo_translators ''spot1/odom'' =
       (Inl ''Failed to get latest clock skew: no time sync'',
        [Call_GetRobotStateAsync, Call_getClockSkew])"
  by (simp add: getRobotState_skew_failed [where e = "''no time sync''"] examples_simps)

lemma run_spot1_empty: "getRobotState spot1_empty echo_translators ''spot1/odom'' =
       (Inl ''Failed to get robot state: OK'', [Call_GetRobotStateAsync])"
  by (simp add: getRobotState_fetch_failed examples_simps)

lemma run_spot1: "getRobotState spot1 echo_translators pf =
       (Inr (assembled echo_translators 7 5 ''spot1/'' pf),
        [Call_GetRobotStateAsync, Call_getClockSkew] @ translator_calls 7 5 ''spot1/'' pf)"
  by (simp add: getRobotState_ok [where sk = 5] examples_simps)

text \<open>
  Claim C1.  If the fetch fails (the status is falsy or the response lacks its robot state),
  \<^verbatim>\<open>getRobotState\<close> returns an error and the request is the only call it has made: the
  clock skew is not queried and no translator runs.  If the fetch succeeds and
  \<^verbatim>\<open>getClockSkew\<close> fails, it returns an error and has made those two calls only.  It returns
  an aggregate exactly when both succeed, and a returned aggregate is the one in which each
  of the thirteen sub-states is the result of its translator, all thirteen having run.
\<close>

theorem getRobotState_all_or_nothing:
  "(\<not> fetch_ok (client_m self []) \<longrightarrow>
      (\<exists>e. fst (getRobotState self tr pf) = Inl e)
      \<and> snd (getRobotState self tr pf) = [Call_GetRobotStateAsync])
   \<and> (fetch_ok (client_m self []) \<and> (\<exists>e. time_sync_api_m self [Call_GetRobotStateAsync] = Inl e) \<longrightarrow>
      (\<exists>e. fst (getRobotState self tr pf) = Inl e)
      \<and> snd (getRobotState self tr pf) = [Call_GetRobotStateAsync, Call_getClockSkew])
   \<and> ((\<exists>out. fst (getRobotState self tr pf) = Inr out) \<longleftrightarrow>
        fetch_ok (client_m self []) \<and> (\<exists>sk. time_sync_api_m self [Call_GetRobotStateAsync] = Inr sk))
   \<and> (\<forall>out. fst (getRobotState self tr pf) = Inr out \<longrightarrow>
        (\<exists>rs sk. robot_state (response (client_m self [])) = Some rs
           \<and> time_sync_api_m self [Call_GetRobotStateAsync] = Inr sk
           \<and> out = assembled tr rs sk (frame_prefix_m self) pf
           \<and> List.map_filter translator_of_call (snd (getRobotState self tr pf)) = source_order))"
proof (cases rule: getRobotState_cases [of self tr pf])
  case fetch_failed
  then show ?thesis by simp
next
  case (skew_failed e)
  then show ?thesis by simp
next
  case (ok rs sk)
  then show ?thesis
    by (simp add: translator_calls_def List.map_filter_def source_order_def)
qed

theorem getRobotState_all_or_nothing_witness:
  "\<not> fetch_ok (client_m spot1_flaky [])
   \<and> getRobotState spot1_flaky echo_translators ''spot1/odom'' =
       (Inl ''Failed to get robot state: timeout'', [Call_GetRobotStateAsync])
   \<and> fetch_ok (client_m spot1_no_sync [])
   \<and> time_sync_api_m spot1_no_sync [Call_GetRobotStateAsync] = Inl ''no time sync''
   \<and> getRobotState spot1_no_sync echo_translators ''spot1/odom'' =
       (Inl ''Failed to get latest clock skew: no time sync'',
        [Call_GetRobotStateAsync, Call_getClockSkew])
   \<and> fst (getRobotState spot1 echo_translators ''spot1/odom'') =
       Inr (assembled echo_translators 7 5 ''spot1/'' ''spot1/odom'')
   \<and> List.map_filter translator_of_call (snd (getRobotState spot1 echo_translators ''spot1/odom''))
       = source_order"
proof -
  have h1: "\<not> fetch_ok (client_m spot1_flaky [])" by (simp add: examples_simps)
  have h2: "fetch_ok (client_m spot1_no_sync [])"
    and h3: "time_sync_api_m spot1_no_sync [Call_GetRobotStateAsync] = Inl ''no time sync''"
    by (simp_all add: examples_simps)
  have h4: "fetch_ok (client_m spot1 [])"
    and h5: "time_sync_api_m spot1 [Call_GetRobotStateAsync] = Inr 5"
    by (simp_all add: examples_simps)
  note a = getRobotState_all_or_nothing [of spot1_flaky echo_translators "''spot1/odom''"]
  note b = getRobotState_all_or_nothing [of spot1_no_sync echo_translators "''spot1/odom''"]
  note c = getRobotState_all_or_nothing [of spot1 echo_translators "''spot1/odom''"]
  from a h1 have "snd (getRobotState spot1_flaky echo_translators ''spot1/odom'') = [Call_GetRobotStateAsync]"
    by blast
  moreover from b h2 h3 have "snd (getRobotState spot1_no_sync echo_translators ''spot1/odom'')
      = [Call_GetRobotStateAsync, Call_getClockSkew]"
    by blast
  moreover from c h4 h5 obtain out where "fst (getRobotState spot1 echo_translators ''spot1/odom'') = Inr out"
    by blast
  with c have "List.map_filter translator_of_call (snd (getRobotState spot1 echo_translators ''spot1/odom''))
       = source_order" by blast
  ultimately show ?thesis using h1 h2 h3 run_spot1_flaky run_spot1_no_sync run_spot1 by simp
qed

text \<open>
  Claim C5.  \<^verbatim>\<open>getRobotState\<close> reports a fetch failure exactly when the status of the remote
  call is falsy or the response lacks its robot state; the error it returns then carries
  the \<^verbatim>\<open>DebugString\<close> of that status; and the request is made once in every call, as the
  first thing it does: a failed request is not repeated.
\<close>

theorem getRobotState_fetch_failure_report:
  "((\<exists>d. fst (getRobotState self tr pf) = Inl (''Failed to get robot state: '' @ d)) \<longleftrightarrow>
      (\<not> status_ok (status (client_m self [])) \<or> \<not> has_robot_state (response (client_m self []))))
   \<and> (\<not> status_ok (status (client_m self [])) \<or> \<not> has_robot_state (response (client_m self [])) \<longrightarrow>
        fst (getRobotState self tr pf) =
          Inl (''Failed to get robot state: '' @ DebugString (status (client_m self []))))
   \<and> count_list (snd (getRobotState self tr pf)) Call_GetRobotStateAsync = 1
   \<and> hd (snd (getRobotState self tr pf)) = Call_GetRobotStateAsync"
proof (cases rule: getRobotState_cases [of self tr pf])
  case fetch_failed
  then show ?thesis by (auto simp add: fetch_ok_def)
next
  case (skew_failed e)
  then show ?thesis by (simp add: fetch_ok_def)
next
  case (ok rs sk)
  then show ?thesis by (simp add: fetch_ok_def translator_calls_def)
qed

theorem getRobotState_fetch_failure_report_witness:
  "\<not> status_ok (status (client_m spot1_flaky []))
   \<and> client_m spot1_flaky [Call_GetRobotStateAsync] = ok_result
   \<and> getRobotState spot1_flaky echo_translators ''spot1/odom'' =
       (Inl ''Failed to get robot state: timeout'', [Call_GetRobotStateAsync])
   \<and> status_ok (status (client_m spot1_empty []))
   \<and> \<not> has_robot_state (response (client_m spot1_empty []))
   \<and> fst (getRobotState spot1_empty echo_translators ''spot1/odom'') =
       Inl ''Failed to get robot state: OK''
   \<and> count_list (snd (getRobotState spot1_empty echo_translators ''spot1/odom''))
        Call_GetRobotStateAsync = 1"
proof -
  have h1: "\<not> status_ok (status (client_m spot1_flaky []))"
    and h2: "client_m spot1_flaky [Call_GetRobotStateAsync] = ok_result"
    and h3: "status_ok (status (client_m spot1_empty []))"
    and h4: "\<not> has_robot_state (response (client_m spot1_empty []))"
    and h5: "DebugString (status (client_m spot1_empty [])) = ''OK''"
    by (simp_all add: examples_simps)
  note a = getRobotState_fetch_failure_report [of spot1_flaky echo_translators "''spot1/odom''"]
  note b = getRobotState_fetch_failure_report [of spot1_empty echo_translators "''spot1/odom''"]
  from b h4 h5 have "fst (getRobotState spot1_empty echo_translators ''spot1/odom'') =
       Inl ''Failed to get robot state: OK''" by simp
  moreover from b have "count_list (snd (getRobotState spot1_empty echo_translators ''spot1/odom''))
        Call_GetRobotStateAsync = 1" by blast
  moreover from a h1 have "fst (getRobotState spot1_flaky echo_translators ''spot1/odom'') =
       Inl (''Failed to get robot state: '' @ DebugString (status (client_m spot1_flaky [])))"
    by blast
  ultimately show ?thesis using h1 h2 h3 h4 run_spot1_flaky by simp
qed

text \<open>
  Claim C3.  Whether \<^verbatim>\<open>getRobotState\<close> returns an error does not depend on the preferred
  odometry frame.  In a successful call the odometry translator is called once, and the
  boolean it is handed is true exactly when the preferred odometry frame is the frame
  prefix followed by "vision"; with the frame prefix followed by "odom", or any other
  string, it is false.
\<close>

theorem getRobotState_odom_choice:
  "(\<forall>pf' e. (fst (getRobotState self tr pf) = Inl e) = (fst (getRobotState self tr pf') = Inl e))
   \<and> (\<forall>out. fst (getRobotState self tr pf) = Inr out \<longrightarrow>
        List.map_filter is_using_vision_of_call (snd (getRobotState self tr pf))
          = [pf = frame_prefix_m self @ ''vision'']
        \<and> (pf = frame_prefix_m self @ ''odom'' \<longrightarrow>
             List.map_filter is_using_vision_of_call (snd (getRobotState self tr pf)) = [False])
        \<and> (\<exists>rs sk. odom_msg out = GetOdom tr rs sk (frame_prefix_m self)
                                      (pf = frame_prefix_m self @ ''vision'')))"
proof (intro conjI allI)
  fix pf' e
  show "(fst (getRobotState self tr pf) = Inl e) = (fst (getRobotState self tr pf') = Inl e)"
    by (cases rule: getRobotState_cases [of self tr pf];
        cases rule: getRobotState_cases [of self tr pf']) simp_all
next
  fix out
  show "fst (getRobotState self tr pf) = Inr out \<longrightarrow>
        List.map_filter is_using_vision_of_call (snd (getRobotState self tr pf))
          = [pf = frame_prefix_m self @ ''vision'']
        \<and> (pf = frame_prefix_m self @ ''odom'' \<longrightarrow>
             List.map_filter is_using_vision_of_call (snd (getRobotState self tr pf)) = [False])
        \<and> (\<exists>rs sk. odom_msg out = GetOdom tr rs sk (frame_prefix_m self)
                                      (pf = frame_prefix_m self @ ''vision''))"
  proof (cases rule: getRobotState_cases [of self tr pf])
    case fetch_failed
    then show ?thesis by simp
  next
    case (skew_failed e)
    then show ?thesis by simp
  next
    case (ok rs sk)
    have "odom_msg (assembled tr rs sk (frame_prefix_m self) pf) =
        GetOdom tr rs sk (frame_prefix_m self) (pf = frame_prefix_m self @ ''vision'')"
      by (simp add: assembled_def)
    then show ?thesis using ok
      by (auto simp add: translator_calls_def List.map_filter_def)
  qed
qed

theorem getRobotState_odom_choice_witness:
  "fst (getRobotState spot1 echo_translators ''spot1/vision'') =
      Inr (assembled echo_translators 7 5 ''spot1/'' ''spot1/vision'')
   \<and> List.map_filter is_using_vision_of_call
        (snd (getRobotState spot1 echo_translators ''spot1/vision'')) = [True]
   \<and> fst (getRobotState spot1 echo_translators ''spot1/odom'') =
      Inr (assembled echo_translators 7 5 ''spot1/'' ''spot1/odom'')
   \<and> List.map_filter is_using_vision_of_call
        (snd (getRobotState spot1 echo_translators ''spot1/odom'')) = [False]
   \<and> fst (getRobotState spot1 echo_translators ''map'') =
      Inr (assembled echo_translators 7 5 ''spot1/'' ''map'')
   \<and> List.map_filter is_using_vision_of_call
        (snd (getRobotState spot1 echo_translators ''map'')) = [False]
   \<and> odom_msg (assembled echo_translators 7 5 ''spot1/'' ''map'') = (7, 5, ''spot1/'', False)"
proof -
  have fp: "frame_prefix_m spot1 = ''spot1/''" by (simp add: examples_simps)
  note a = getRobotState_odom_choice [of spot1 echo_translators "''spot1/vision''"]
  note b = getRobotState_odom_choice [of spot1 echo_translators "''spot1/odom''"]
  note c = getRobotState_odom_choice [of spot1 echo_translators "''map''"]
  have "List.map_filter is_using_vision_of_call
        (snd (getRobotState spot1 echo_translators ''spot1/vision'')) = [True]"
    using a run_spot1 [of "''spot1/vision''"] fp by simp
  moreover have "List.map_filter is_using_vision_of_call
        (snd (getRobotState spot1 echo_translators ''spot1/odom'')) = [False]"
    using b run_spot1 [of "''spot1/odom''"] fp by simp
  moreover have "List.map_filter is_using_vision_of_call
        (snd (getRobotState spot1 echo_translators ''map'')) = [False]"
    using c run_spot1 [of "''map''"] fp by simp
  moreover have "odom_msg (assembled echo_translators 7 5 ''spot1/'' ''map'') = (7, 5, ''spot1/'', False)"
    by (simp add: assembled_def echo_translators_def)
  ultimately show ?thesis by (simp add: run_spot1)
qed



section \<open>Frame prefix and joint namespace\<close>




end
